theory Spec2Isabelle
  imports Complex_Main "HOL-Library.Word"
begin

section \<open>File\_Compressor\_Go: the compressor package and its command\<close>

text \<open>
  The development embeds \<^verbatim>\<open>pkg/compressor/compressor.go\<close> and the level parsing and
  dispatch of \<^verbatim>\<open>cmd/filecompressor/main.go\<close>. Go's standard library (the file system,
  \<^verbatim>\<open>path/filepath\<close>, \<^verbatim>\<open>compress/gzip\<close>) is not part of the repository: the file
  system is an explicit state, the path functions are written out for Unix paths, and the
  gzip codec is a parameter.
\<close>

subsection \<open>Basic types\<close>

type_synonym byte = "8 word"

text \<open>A \<^verbatim>\<open>time.Time\<close>, as nanoseconds since the zero time (January 1, year 1, UTC).\<close>

type_synonym gotime = int

definition IsZero :: "gotime \<Rightarrow> bool" where
  "IsZero t = (t = 0)"

text \<open>
  A \<^verbatim>\<open>float64\<close> as far as the ratio needs it: finite values are kept exact (rounding
  is left out), the special values of a division by zero are explicit.
\<close>

datatype float64 = Finite rat | PosInf | NegInf | NaN

definition float64_of_int :: "int \<Rightarrow> float64" where
  "float64_of_int n = Finite (of_int n)"

fun fdiv :: "float64 \<Rightarrow> float64 \<Rightarrow> float64" where
  "fdiv (Finite a) (Finite b) =
     (if b = 0 then (if a = 0 then NaN else if 0 < a then PosInf else NegInf)
      else Finite (a / b))"
| "fdiv (Finite a) PosInf = Finite 0"
| "fdiv (Finite a) NegInf = Finite 0"
| "fdiv PosInf (Finite b) = (if b < 0 then NegInf else PosInf)"
| "fdiv NegInf (Finite b) = (if b < 0 then PosInf else NegInf)"
| "fdiv _ _ = NaN"

fun fmul :: "float64 \<Rightarrow> float64 \<Rightarrow> float64" where
  "fmul (Finite a) (Finite b) = Finite (a * b)"
| "fmul NaN _ = NaN"
| "fmul _ NaN = NaN"
| "fmul PosInf (Finite b) = (if b = 0 then NaN else if 0 < b then PosInf else NegInf)"
| "fmul NegInf (Finite b) = (if b = 0 then NaN else if 0 < b then NegInf else PosInf)"
| "fmul (Finite a) PosInf = (if a = 0 then NaN else if 0 < a then PosInf else NegInf)"
| "fmul (Finite a) NegInf = (if a = 0 then NaN else if 0 < a then NegInf else PosInf)"
| "fmul PosInf PosInf = PosInf"
| "fmul NegInf NegInf = PosInf"
| "fmul PosInf NegInf = NegInf"
| "fmul NegInf PosInf = NegInf"

subsection \<open>The compressor and its construction\<close>

record FileCompressor =
  compressionLevel :: int

definition NewFileCompressor :: "int \<Rightarrow> FileCompressor" where
  "NewFileCompressor level =
     (let level = (if level < 1 \<or> level > 9 then 6 else level)
      in \<lparr>compressionLevel = level\<rparr>)"

subsection \<open>The command: level parsing and dispatch of main\<close>

text \<open>The map \<^verbatim>\<open>m\<close> of main; a missing key reads as the empty string.\<close>

definition m :: "string \<Rightarrow> string" where
  "m command =
     (if command = ''1'' then ''compress''
      else if command = ''2'' then ''compress-dir''
      else if command = ''3'' then ''decompress''
      else if command = ''4'' then ''decompress-dir''
      else '''')"

definition byte_of_char :: "char \<Rightarrow> byte" where
  "byte_of_char c = of_nat (of_char c)"

text \<open>
  Lines 86 to 95 of main: \<^verbatim>\<open>Args\<close> is \<^verbatim>\<open>os.Args\<close>, \<^verbatim>\<open>command\<close> the token read
  from the prompt. The subtraction \<^verbatim>\<open>level[0] - '0'\<close> is on bytes and wraps.
\<close>

definition parseCompressionLevel :: "string list \<Rightarrow> string \<Rightarrow> int" where
  "parseCompressionLevel Args command =
     (if length Args > 4 \<and> (command = ''compress'' \<or> command = ''compress-dir'') then
        (let level = Args ! 4 in
         if level \<noteq> '''' then
           (let l = uint (byte_of_char (level ! 0) - byte_of_char CHR ''0'') in
            if l \<ge> 1 \<and> l \<le> 9 then l else 6)
         else 6)
      else 6)"

text \<open>What main calls on the compressor it built, or its default branch.\<close>

datatype invocation =
    CallCompressFile FileCompressor string string
  | CallDecompressFile FileCompressor string string
  | CallCompressDirectory FileCompressor string string
  | CallDecompressDirectory FileCompressor string string
  | UnknownCommand string

definition main_dispatch :: "string list \<Rightarrow> string \<Rightarrow> string \<Rightarrow> string \<Rightarrow> invocation" where
  "main_dispatch Args command inputPath outputPath =
     (let compressionLevel = parseCompressionLevel Args command;
          compressor = NewFileCompressor compressionLevel
      in if m command = ''compress'' then CallCompressFile compressor inputPath outputPath
         else if m command = ''decompress'' then CallDecompressFile compressor inputPath outputPath
         else if m command = ''compress-dir'' then CallCompressDirectory compressor inputPath outputPath
         else if m command = ''decompress-dir'' then CallDecompressDirectory compressor inputPath outputPath
         else UnknownCommand command)"

subsection \<open>Strings and Unix paths\<close>

text \<open>
  \<^verbatim>\<open>strings.Split(s, sep)[0]\<close> for a non-empty separator: the part of \<^verbatim>\<open>s\<close> before
  the first occurrence of \<^verbatim>\<open>sep\<close>, all of \<^verbatim>\<open>s\<close> when there is none.
\<close>

fun before_first :: "string \<Rightarrow> string \<Rightarrow> string" where
  "before_first sep [] = []"
| "before_first sep (c # cs) =
     (if take (length sep) (c # cs) = sep then [] else c # before_first sep cs)"

definition HasSuffix :: "string \<Rightarrow> string \<Rightarrow> bool" where
  "HasSuffix s suffix =
     (length s \<ge> length suffix \<and> drop (length s - length suffix) s = suffix)"

definition TrimSuffix :: "string \<Rightarrow> string \<Rightarrow> string" where
  "TrimSuffix s suffix =
     (if HasSuffix s suffix then take (length s - length suffix) s else s)"

text \<open>The elements of a path between its separators: \<^verbatim>\<open>a//b\<close> has the elements a, empty, b.\<close>

fun split_sep :: "string \<Rightarrow> string list" where
  "split_sep [] = [[]]"
| "split_sep (c # cs) =
     (if c = CHR ''/'' then [] # split_sep cs
      else (case split_sep cs of [] \<Rightarrow> [[c]] | x # xs \<Rightarrow> (c # x) # xs))"

fun join_sep :: "string list \<Rightarrow> string" where
  "join_sep [] = []"
| "join_sep [x] = x"
| "join_sep (x # y # ys) = x @ ''/'' @ join_sep (y # ys)"

definition rooted :: "string \<Rightarrow> bool" where
  "rooted p = (p \<noteq> [] \<and> hd p = CHR ''/'')"

text \<open>
  One element of \<^verbatim>\<open>filepath.Clean\<close>, on the stack of the elements kept so far (the last
  one first): empty and dot elements go, a dot-dot element removes the element before it,
  stays at the start of a relative path and goes at the start of a rooted one.
\<close>

fun clean_step :: "bool \<Rightarrow> string list \<Rightarrow> string \<Rightarrow> string list" where
  "clean_step r acc c =
     (if c = [] \<or> c = ''.'' then acc
      else if c = ''..'' then
        (case acc of
           [] \<Rightarrow> (if r then [] else [''..''])
         | t # ts \<Rightarrow> (if t = ''..'' then ''..'' # acc else ts))
      else c # acc)"

definition clean_elems :: "string \<Rightarrow> string list" where
  "clean_elems p = rev (foldl (clean_step (rooted p)) [] (split_sep p))"

definition Clean :: "string \<Rightarrow> string" where
  "Clean p =
     (if p = [] then ''.''
      else if rooted p then ''/'' @ join_sep (clean_elems p)
      else if clean_elems p = [] then ''.''
      else join_sep (clean_elems p))"

text \<open>\<^verbatim>\<open>filepath.Join\<close> of two elements.\<close>

definition Join :: "string \<Rightarrow> string \<Rightarrow> string" where
  "Join a b =
     (if a \<noteq> [] then Clean (a @ ''/'' @ b)
      else if b \<noteq> [] then Clean b
      else [])"

text \<open>The path up to and including its last separator (empty when it has none).\<close>

definition upto_last_sep :: "string \<Rightarrow> string" where
  "upto_last_sep p = rev (dropWhile (\<lambda>c. c \<noteq> CHR ''/'') (rev p))"

definition Dir :: "string \<Rightarrow> string" where
  "Dir p = Clean (upto_last_sep p)"

definition Base :: "string \<Rightarrow> string" where
  "Base p =
     (if p = [] then ''.''
      else (let q = rev (dropWhile (\<lambda>c. c = CHR ''/'') (rev p));
                b = rev (takeWhile (\<lambda>c. c \<noteq> CHR ''/'') (rev q))
            in if b = [] then ''/'' else b))"

text \<open>
  \<^verbatim>\<open>filepath.Rel\<close>. The elements of a cleaned path as its loop reads them: a rooted
  path starts with an empty element, the root alone is that element only.
\<close>

definition rel_elems :: "string \<Rightarrow> string list" where
  "rel_elems p = (if p = [] then [] else if p = ''/'' then [[]] else split_sep p)"

text \<open>
  The loop of Rel drops the common leading elements; it stops at the first pair that
  differs (the flag is True then) or when one side runs out.
\<close>

fun rel_strip :: "string list \<Rightarrow> string list \<Rightarrow> string list \<times> string list \<times> bool" where
  "rel_strip (b # bs) (t # ts) = (if t = b then rel_strip bs ts else (b # bs, t # ts, True))"
| "rel_strip bs ts = (bs, ts, False)"

definition Rel :: "string \<Rightarrow> string \<Rightarrow> string option" where
  "Rel basepath targpath =
     (let base = Clean basepath; targ = Clean targpath in
      if targ = base then Some ''.''
      else
        (let base = (if base = ''.'' then [] else base) in
         if rooted base \<noteq> rooted targ then None
         else
           (case rel_strip (rel_elems base) (rel_elems targ) of
              (bs, ts, differ) \<Rightarrow>
                if differ \<and> hd bs = ''..'' then None
                else if bs \<noteq> [] then Some (join_sep (replicate (length bs) ''..'' @ ts))
                else Some (join_sep ts))))"

text \<open>The destination paths of the two directory operations (lines 208 and 257).\<close>

definition compress_outputPath :: "string \<Rightarrow> string \<Rightarrow> string" where
  "compress_outputPath outputDir relPath = Join outputDir (relPath @ ''.gz'')"

definition decompress_outputPath :: "string \<Rightarrow> string \<Rightarrow> string" where
  "decompress_outputPath outputDir relPath = Join outputDir (before_first ''.gz'' relPath)"

subsection \<open>Errors, statistics and console output\<close>

datatype os_error = ENOENT | EACCES | ENOTDIR | EISDIR | EEXIST | ENOSPC | EIO

text \<open>
  What the gzip writer reports: an error of the file it writes to, or its own error for a
  header it cannot write (a name that is not Latin-1).
\<close>

datatype writer_error = OsError os_error | HeaderError

text \<open>
  One constructor for each \<^verbatim>\<open>fmt.Errorf\<close> of the package, with the error it wraps;
  \<^verbatim>\<open>PathError\<close> is an error of the file system returned as it is, \<^verbatim>\<open>RelError\<close> the
  error of \<^verbatim>\<open>filepath.Rel\<close>, \<^verbatim>\<open>NilPointerPanic\<close> the panic of reading a field through
  a nil pointer.
\<close>

datatype error =
    FailedToOpenInputFile os_error
  | FailedToGetInputFileInfo os_error
  | FailedToCreateOutputFile os_error
  | FailedToCreateGzipWriter
  | FailedToCompressFile writer_error
  | FailedToCloseGzipWriter writer_error
  | FailedToOpenCompressedFile os_error
  | FailedToGetCompressedFileInfo os_error
  | FailedToCreateGzipReader
  | FailedToDecompressFile
  | FailedToCreateOutputDirectory os_error
  | PathError os_error
  | RelError
  | NilPointerPanic

record CompressionStats =
  OriginalSize :: int
  CompressedSize :: int
  CompressionRatio :: float64
  TimeTaken :: int

text \<open>The lines the two directory operations print.\<close>

datatype event =
    ErrorCompressing string error
  | Compressed string string float64
  | ErrorDecompressing string error
  | DeCompressed string string float64

subsection \<open>The file system\<close>

text \<open>
  A node is a regular file or a directory, found under its cleaned path. Access times,
  owners, links and the size a directory reports are left out; a directory's content is
  empty.

  Three fields of the world say which calls the system lets fail, by the cleaned path of
  the file: \<^verbatim>\<open>Stat\<close> on the open file; a write of \<^verbatim>\<open>io.Copy\<close> to the file; the
  writes of closing a gzip writer on the file. A failing write comes with the number of
  bytes that reach the file all the same.
\<close>

record node =
  isDir :: bool
  content :: "byte list"
  modTime :: gotime
  readable :: bool
  writable :: bool

record world =
  nodes :: "string \<Rightarrow> node option"
  clock :: gotime
  stdout :: "event list"
  stat_error :: "string \<Rightarrow> os_error option"
  copy_error :: "string \<Rightarrow> (os_error \<times> nat) option"
  close_error :: "string \<Rightarrow> (os_error \<times> nat) option"

definition new_dir :: "gotime \<Rightarrow> node" where
  "new_dir t = \<lparr>isDir = True, content = [], modTime = t, readable = True, writable = True\<rparr>"

definition new_file :: "gotime \<Rightarrow> node" where
  "new_file t = \<lparr>isDir = False, content = [], modTime = t, readable = True, writable = True\<rparr>"

text \<open>
  The node a path names. The current directory, the root and a path that cleans to
  dot-dot elements only are directories that always exist.
\<close>

definition node_at :: "world \<Rightarrow> string \<Rightarrow> node option" where
  "node_at w p =
     (if clean_elems p = [] \<or> last (clean_elems p) = ''..'' then Some (new_dir 0)
      else nodes w (Clean p))"

definition put_node :: "world \<Rightarrow> string \<Rightarrow> node \<Rightarrow> world" where
  "put_node w p n = w\<lparr>nodes := (nodes w)(Clean p \<mapsto> n)\<rparr>"

text \<open>
  \<^verbatim>\<open>os.Open\<close>: the handle is the node as it is found. A directory opens; reading from
  it fails.
\<close>

definition os_Open :: "world \<Rightarrow> string \<Rightarrow> os_error + node" where
  "os_Open w p =
     (if p = [] then Inl ENOENT
      else (case node_at w p of
              None \<Rightarrow> Inl ENOENT
            | Some n \<Rightarrow> (if isDir n \<or> readable n then Inr n else Inl EACCES)))"

text \<open>
  \<^verbatim>\<open>os.Create\<close>: the parent must be a directory; an existing file is truncated, a new
  one is empty.
\<close>

definition os_Create :: "world \<Rightarrow> string \<Rightarrow> os_error + world" where
  "os_Create w p =
     (if p = [] then Inl ENOENT
      else (case node_at w (Dir (Clean p)) of
              None \<Rightarrow> Inl ENOENT
            | Some d \<Rightarrow>
                if \<not> isDir d then Inl ENOTDIR
                else (case node_at w p of
                        None \<Rightarrow> Inr (put_node w p (new_file (clock w)))
                      | Some n \<Rightarrow>
                          if isDir n then Inl EISDIR
                          else if \<not> writable n then Inl EACCES
                          else Inr (put_node w p (n\<lparr>content := [], modTime := clock w\<rparr>)))))"

text \<open>\<^verbatim>\<open>Stat\<close> on a file opened under a path: the node itself, with its size and time.\<close>

definition os_Stat :: "world \<Rightarrow> string \<Rightarrow> node \<Rightarrow> os_error + node" where
  "os_Stat w p file = (case stat_error w (Clean p) of Some e \<Rightarrow> Inl e | None \<Rightarrow> Inr file)"

text \<open>All the bytes of the file at a path, as a reader finds them now.\<close>

definition read_all :: "world \<Rightarrow> string \<Rightarrow> os_error + byte list" where
  "read_all w p =
     (case node_at w p of
        None \<Rightarrow> Inl ENOENT
      | Some n \<Rightarrow> (if isDir n then Inl EISDIR else Inr (content n)))"

text \<open>Writing through the handle of a created file.\<close>

definition write_all :: "world \<Rightarrow> string \<Rightarrow> byte list \<Rightarrow> world" where
  "write_all w p bs =
     (case nodes w (Clean p) of
        None \<Rightarrow> w
      | Some n \<Rightarrow> put_node w p (n\<lparr>content := bs, modTime := clock w\<rparr>))"

text \<open>\<^verbatim>\<open>os.Chtimes\<close>; the access time is not part of a node.\<close>

definition os_Chtimes :: "world \<Rightarrow> string \<Rightarrow> gotime \<Rightarrow> gotime \<Rightarrow> world" where
  "os_Chtimes w p atime mtime =
     (case nodes w (Clean p) of
        None \<Rightarrow> w
      | Some n \<Rightarrow> put_node w p (n\<lparr>modTime := mtime\<rparr>))"

subsection \<open>The gzip codec\<close>

record gz_header =
  Name :: string
  ModTime :: gotime

text \<open>
  The codec of \<^verbatim>\<open>compress/gzip\<close> as functions: the container a writer of a given level
  and header produces for the bytes written to it; whether the writer rejects a header,
  and the bytes it has written by then; the header a new reader finds (None:
  \<^verbatim>\<open>gzip.NewReader\<close> fails); the bytes a reader delivers with whether it reached the
  end without an error; and the same for a reader whose file is the output, truncated
  by \<^verbatim>\<open>os.Create\<close> after the reader filled its buffer and written while it reads on.
\<close>

record gzip_codec =
  gz_encode :: "int \<Rightarrow> gz_header \<Rightarrow> byte list \<Rightarrow> byte list"
  gz_rejects :: "int \<Rightarrow> gz_header \<Rightarrow> byte list option"
  gz_NewReader :: "byte list \<Rightarrow> gz_header option"
  gz_ReadAll :: "byte list \<Rightarrow> byte list \<times> bool"
  gz_ReadAllOverwritten :: "byte list \<Rightarrow> byte list \<times> bool"

text \<open>
  The gzip writer writes its header with the first bytes it is given, or when it is
  closed. So copying data fails on a header it rejects only when there is data, and on
  a write the system lets fail; the error is the first value, the bytes that reached the
  file the second.
\<close>

definition writer_copy ::
  "gzip_codec \<Rightarrow> world \<Rightarrow> string \<Rightarrow> int \<Rightarrow> gz_header \<Rightarrow> byte list
     \<Rightarrow> (writer_error \<times> byte list) option" where
  "writer_copy gz w outputPath level header data =
     (if data = [] then None
      else (case gz_rejects gz level header of
              Some written \<Rightarrow> Some (HeaderError, written)
            | None \<Rightarrow>
                (case copy_error w (Clean outputPath) of
                   Some (e, k) \<Rightarrow> Some (OsError e, take k (gz_encode gz level header data))
                 | None \<Rightarrow> None)))"

text \<open>
  Closing the writer after the data was copied: the bytes the file holds then, and the
  error of Close if it fails.
\<close>

definition writer_close ::
  "gzip_codec \<Rightarrow> world \<Rightarrow> string \<Rightarrow> int \<Rightarrow> gz_header \<Rightarrow> byte list
     \<Rightarrow> byte list \<times> writer_error option" where
  "writer_close gz w outputPath level header data =
     (case gz_rejects gz level header of
        Some written \<Rightarrow> (written, Some HeaderError)
      | None \<Rightarrow>
          (case close_error w (Clean outputPath) of
             Some (e, k) \<Rightarrow> (take k (gz_encode gz level header data), Some (OsError e))
           | None \<Rightarrow> (gz_encode gz level header data, None)))"

text \<open>\<^verbatim>\<open>gzip.NewWriterLevel\<close> accepts the levels from HuffmanOnly (-2) to BestCompression (9).\<close>

definition valid_gzip_level :: "int \<Rightarrow> bool" where
  "valid_gzip_level l = (-2 \<le> l \<and> l \<le> 9)"

definition ratio :: "int \<Rightarrow> int \<Rightarrow> float64" where
  "ratio processed original =
     fmul (fdiv (float64_of_int processed) (float64_of_int original)) (Finite 100)"

subsection \<open>CompressFile and DecompressFile\<close>

text \<open>
  Both return the world they leave with the two results of the Go function: the
  statistics pointer (None for nil) and the error (None for nil). The clock does not
  advance during a call.

  CompressFile reads the input only after the output was created, so it reads the world
  that \<^verbatim>\<open>os.Create\<close> left. The count \<^verbatim>\<open>io.Copy\<close> returns is the number of bytes
  copied into the gzip writer. When \<^verbatim>\<open>io.Copy\<close> fails on reading, nothing was written
  to the writer and its deferred Close still runs; when it fails on writing, the writer
  keeps its error and the deferred Close writes nothing more.
\<close>

definition CompressFile ::
  "gzip_codec \<Rightarrow> FileCompressor \<Rightarrow> world \<Rightarrow> string \<Rightarrow> string
     \<Rightarrow> world \<times> CompressionStats option \<times> error option" where
  "CompressFile gz fc w inputPath outputPath =
     (case os_Open w inputPath of
        Inl e \<Rightarrow> (w, None, Some (FailedToOpenInputFile e))
      | Inr inputFile \<Rightarrow>
          (case os_Stat w inputPath inputFile of
             Inl e \<Rightarrow> (w, None, Some (FailedToGetInputFileInfo e))
           | Inr inputInfo \<Rightarrow>
               (case os_Create w outputPath of
                  Inl e \<Rightarrow> (w, None, Some (FailedToCreateOutputFile e))
                | Inr w1 \<Rightarrow>
                    if \<not> valid_gzip_level (compressionLevel fc)
                    then (w1, None, Some FailedToCreateGzipWriter)
                    else
                      (let level = compressionLevel fc;
                           header = \<lparr>Name = Base inputPath, ModTime = modTime inputInfo\<rparr>
                       in
                       case read_all w1 inputPath of
                         Inl e \<Rightarrow>
                           (write_all w1 outputPath
                              (fst (writer_close gz w1 outputPath level header [])),
                            None, Some (FailedToCompressFile (OsError e)))
                       | Inr data \<Rightarrow>
                           (case writer_copy gz w1 outputPath level header data of
                              Some (err, written) \<Rightarrow>
                                (write_all w1 outputPath written, None,
                                 Some (FailedToCompressFile err))
                            | None \<Rightarrow>
                                (case writer_close gz w1 outputPath level header data of
                                   (written, Some err) \<Rightarrow>
                                     (write_all w1 outputPath written, None,
                                      Some (FailedToCloseGzipWriter err))
                                 | (written, None) \<Rightarrow>
                                     (let w2 = write_all w1 outputPath written;
                                          compressedSize = int (length data);
                                          originalSize = int (length (content inputInfo));
                                          compressionRatio = ratio compressedSize originalSize
                                      in (w2,
                                          Some \<lparr>OriginalSize = originalSize,
                                                CompressedSize = compressedSize,
                                                CompressionRatio = compressionRatio,
                                                TimeTaken = clock w2 - clock w\<rparr>,
                                          None))))))))"

text \<open>
  DecompressFile: the gzip reader is made from the opened input, and reads its header,
  before the output is created. When the output is another file, the reader works on the
  content of the input; when it is the input itself, the reader goes on in a file that
  was truncated and is being written. A write of \<^verbatim>\<open>io.Copy\<close> that the system lets fail
  ends the copy when there are bytes to write.
\<close>

definition reader_ReadAll :: "gzip_codec \<Rightarrow> string \<Rightarrow> string \<Rightarrow> byte list \<Rightarrow> byte list \<times> bool" where
  "reader_ReadAll gz inputPath outputPath bs =
     (if Clean inputPath = Clean outputPath then gz_ReadAllOverwritten gz bs
      else gz_ReadAll gz bs)"

definition DecompressFile ::
  "gzip_codec \<Rightarrow> FileCompressor \<Rightarrow> world \<Rightarrow> string \<Rightarrow> string
     \<Rightarrow> world \<times> CompressionStats option \<times> error option" where
  "DecompressFile gz fc w inputPath outputPath =
     (case os_Open w inputPath of
        Inl e \<Rightarrow> (w, None, Some (FailedToOpenCompressedFile e))
      | Inr inputFile \<Rightarrow>
          (case os_Stat w inputPath inputFile of
             Inl e \<Rightarrow> (w, None, Some (FailedToGetCompressedFileInfo e))
           | Inr inputInfo \<Rightarrow>
               (case (if isDir inputFile then None else gz_NewReader gz (content inputFile)) of
                  None \<Rightarrow> (w, None, Some FailedToCreateGzipReader)
                | Some gzReader \<Rightarrow>
                    (case os_Create w outputPath of
                       Inl e \<Rightarrow> (w, None, Some (FailedToCreateOutputFile e))
                     | Inr w1 \<Rightarrow>
                         (case reader_ReadAll gz inputPath outputPath (content inputFile) of
                            (out, ok) \<Rightarrow>
                              (case (if out = [] then None else copy_error w1 (Clean outputPath)) of
                                 Some (e, k) \<Rightarrow>
                                   (write_all w1 outputPath (take k out), None,
                                    Some FailedToDecompressFile)
                               | None \<Rightarrow>
                                   (let w2 = write_all w1 outputPath out in
                                    if \<not> ok then (w2, None, Some FailedToDecompressFile)
                                    else
                                      (let decompressedSize = int (length out);
                                           w3 = (if \<not> IsZero (ModTime gzReader)
                                                 then os_Chtimes w2 outputPath (clock w2)
                                                        (ModTime gzReader)
                                                 else w2)
                                       in (w3,
                                           Some \<lparr>OriginalSize = int (length (content inputInfo)),
                                                 CompressedSize = decompressedSize,
                                                 CompressionRatio =
                                                   ratio decompressedSize
                                                     (int (length (content inputInfo))),
                                                 TimeTaken = clock w3 - clock w\<rparr>,
                                           None)))))))))"

subsection \<open>Creating directories\<close>

definition path_of_elems :: "bool \<Rightarrow> string list \<Rightarrow> string" where
  "path_of_elems r es = (if r then ''/'' @ join_sep es else join_sep es)"

definition lookup_elems :: "world \<Rightarrow> bool \<Rightarrow> string list \<Rightarrow> node option" where
  "lookup_elems w r es =
     (if es = [] \<or> last es = ''..'' then Some (new_dir 0) else nodes w (path_of_elems r es))"

text \<open>\<^verbatim>\<open>os.Mkdir\<close> of a path whose parent was just made sure of.\<close>

definition os_Mkdir :: "world \<Rightarrow> bool \<Rightarrow> string list \<Rightarrow> os_error + world" where
  "os_Mkdir w r es =
     (case lookup_elems w r es of
        Some n \<Rightarrow> Inl EEXIST
      | None \<Rightarrow> Inr (w\<lparr>nodes := (nodes w)(path_of_elems r es \<mapsto> new_dir (clock w))\<rparr>))"

text \<open>
  \<^verbatim>\<open>os.MkdirAll\<close>, on the elements of the cleaned path with the last element first: a
  path that is a directory is left alone, one that is a file is an error; otherwise the
  parent is made first, then the directory itself (an error of Mkdir is dropped when the
  directory is there after all).
\<close>

fun mkdir_all :: "bool \<Rightarrow> world \<Rightarrow> string list \<Rightarrow> os_error + world" where
  "mkdir_all r w [] = Inr w"
| "mkdir_all r w (e # parent) =
     (case lookup_elems w r (rev (e # parent)) of
        Some dir \<Rightarrow> (if isDir dir then Inr w else Inl ENOTDIR)
      | None \<Rightarrow>
          (case mkdir_all r w parent of
             Inl err \<Rightarrow> Inl err
           | Inr w1 \<Rightarrow>
               (case os_Mkdir w1 r (rev (e # parent)) of
                  Inr w2 \<Rightarrow> Inr w2
                | Inl err \<Rightarrow>
                    (case lookup_elems w1 r (rev (e # parent)) of
                       Some dir \<Rightarrow> (if isDir dir then Inr w1 else Inl err)
                     | None \<Rightarrow> Inl err))))"

definition os_MkdirAll :: "world \<Rightarrow> string \<Rightarrow> os_error + world" where
  "os_MkdirAll w path =
     (if path = [] then Inl ENOENT else mkdir_all (rooted path) w (rev (clean_elems path)))"



subsection \<open>Walking a directory\<close>

text \<open>
  What \<^verbatim>\<open>filepath.Walk\<close> finds at a path: a file, a directory with its entries in
  lexical order, a directory that cannot be read, or a path whose \<^verbatim>\<open>Lstat\<close> fails.
\<close>

datatype walk_tree =
    WFile
  | WDir "(string \<times> walk_tree) list"
  | WDirUnreadable os_error
  | WLstatError os_error

text \<open>
  The function is called with the path, whether the path is a directory, and the error of
  the walk at this path. Neither walk function of the package returns \<^verbatim>\<open>SkipDir\<close>, so
  every error it returns ends the walk.
\<close>

type_synonym walkFn = "string \<Rightarrow> bool \<Rightarrow> os_error option \<Rightarrow> world \<Rightarrow> world \<times> error option"

fun walk :: "walkFn \<Rightarrow> string \<Rightarrow> walk_tree \<Rightarrow> world \<Rightarrow> world \<times> error option"
  and walk_names :: "walkFn \<Rightarrow> string \<Rightarrow> (string \<times> walk_tree) list \<Rightarrow> world \<Rightarrow> world \<times> error option"
  where
  "walk fn path WFile w = fn path False None w"
| "walk fn path (WLstatError e) w = fn path False (Some e) w"
| "walk fn path (WDirUnreadable e) w = fn path True (Some e) w"
| "walk fn path (WDir names) w =
     (case fn path True None w of
        (w1, Some err) \<Rightarrow> (w1, Some err)
      | (w1, None) \<Rightarrow> walk_names fn path names w1)"
| "walk_names fn path [] w = (w, None)"
| "walk_names fn path ((name, t) # rest) w =
     (case walk fn (Join path name) t w of
        (w1, Some err) \<Rightarrow> (w1, Some err)
      | (w1, None) \<Rightarrow> walk_names fn path rest w1)"

subsection \<open>CompressDirectory and DecompressDirectory\<close>

definition print :: "world \<Rightarrow> event \<Rightarrow> world" where
  "print w ev = w\<lparr>stdout := stdout w @ [ev]\<rparr>"

text \<open>
  The end of the walk function of CompressDirectory (lines 217 to 226), from the result
  of CompressFile. A nil error with nil statistics would be a nil dereference at line 224.
\<close>

fun compress_report :: "string \<Rightarrow> string \<Rightarrow> world \<times> CompressionStats option \<times> error option
    \<Rightarrow> world \<times> error option" where
  "compress_report path outputPath (w, stats, Some err) = (print w (ErrorCompressing path err), None)"
| "compress_report path outputPath (w, Some stats, None) =
     (print w (Compressed path outputPath (CompressionRatio stats)), None)"
| "compress_report path outputPath (w, None, None) = (w, Some NilPointerPanic)"

definition compress_walkFn :: "gzip_codec \<Rightarrow> FileCompressor \<Rightarrow> string \<Rightarrow> string \<Rightarrow> walkFn" where
  "compress_walkFn gz fc inputDir outputDir path info_IsDir err w =
     (case err of
        Some e \<Rightarrow> (w, Some (PathError e))
      | None \<Rightarrow>
          if info_IsDir then (w, None)
          else
            (case Rel inputDir path of
               None \<Rightarrow> (w, Some RelError)
             | Some relPath \<Rightarrow>
                 (let outputPath = compress_outputPath outputDir relPath;
                      outputDirPath = Dir outputPath
                  in case os_MkdirAll w outputDirPath of
                       Inl e \<Rightarrow> (w, Some (PathError e))
                     | Inr w1 \<Rightarrow>
                         compress_report path outputPath (CompressFile gz fc w1 path outputPath))))"

text \<open>The tree is what the walk finds at the input directory.\<close>

definition CompressDirectory ::
  "gzip_codec \<Rightarrow> FileCompressor \<Rightarrow> world \<Rightarrow> string \<Rightarrow> string \<Rightarrow> walk_tree
     \<Rightarrow> world \<times> error option" where
  "CompressDirectory gz fc w inputDir outputDir tree =
     (case os_MkdirAll w outputDir of
        Inl e \<Rightarrow> (w, Some (FailedToCreateOutputDirectory e))
      | Inr w1 \<Rightarrow> walk (compress_walkFn gz fc inputDir outputDir) inputDir tree w1)"

fun decompress_report :: "string \<Rightarrow> string \<Rightarrow> world \<times> CompressionStats option \<times> error option
    \<Rightarrow> world \<times> error option" where
  "decompress_report path outputPath (w, stats, Some err) =
     (print w (ErrorDecompressing path err), None)"
| "decompress_report path outputPath (w, Some stats, None) =
     (print w (DeCompressed path outputPath (CompressionRatio stats)), None)"
| "decompress_report path outputPath (w, None, None) = (w, Some NilPointerPanic)"

definition decompress_walkFn :: "gzip_codec \<Rightarrow> FileCompressor \<Rightarrow> string \<Rightarrow> string \<Rightarrow> walkFn" where
  "decompress_walkFn gz fc inputDir outputDir path info_IsDir err w =
     (case err of
        Some e \<Rightarrow> (w, Some (PathError e))
      | None \<Rightarrow>
          if info_IsDir then (w, None)
          else
            (case Rel inputDir path of
               None \<Rightarrow> (w, Some RelError)
             | Some relPath \<Rightarrow>
                 (let outputPath = decompress_outputPath outputDir relPath;
                      outputDirPath = Dir outputPath
                  in case os_MkdirAll w outputDirPath of
                       Inl e \<Rightarrow> (w, Some (PathError e))
                     | Inr w1 \<Rightarrow>
                         decompress_report path outputPath
                           (DecompressFile gz fc w1 path outputPath))))"

definition DecompressDirectory ::
  "gzip_codec \<Rightarrow> FileCompressor \<Rightarrow> world \<Rightarrow> string \<Rightarrow> string \<Rightarrow> walk_tree
     \<Rightarrow> world \<times> error option" where
  "DecompressDirectory gz fc w inputDir outputDir tree =
     (case os_MkdirAll w outputDir of
        Inl e \<Rightarrow> (w, Some (FailedToCreateOutputDirectory e))
      | Inr w1 \<Rightarrow> walk (decompress_walkFn gz fc inputDir outputDir) inputDir tree w1)"

subsection \<open>A small container format, to run the operations on concrete files\<close>

text \<open>
  The format: the two magic bytes of gzip, the modification time in eight bytes (least
  significant first), the length of the name in one byte, the name, then the data as it
  is. It serves where a concrete codec is needed; the level is not used. A reader whose
  file is overwritten under it fails.
\<close>

fun le_bytes :: "nat \<Rightarrow> nat \<Rightarrow> byte list" where
  "le_bytes 0 v = []"
| "le_bytes (Suc k) v = of_nat (v mod 256) # le_bytes k (v div 256)"

fun le_value :: "byte list \<Rightarrow> nat" where
  "le_value [] = 0"
| "le_value (b # bs) = unat b + 256 * le_value bs"

definition stored_encode :: "int \<Rightarrow> gz_header \<Rightarrow> byte list \<Rightarrow> byte list" where
  "stored_encode l h d =
     [31, 139] @ le_bytes 8 (nat (ModTime h)) @ [of_nat (length (Name h))]
       @ map byte_of_char (Name h) @ d"

definition stored_valid :: "byte list \<Rightarrow> bool" where
  "stored_valid bs =
     (length bs \<ge> 11 \<and> take 2 bs = [31, 139] \<and> length bs \<ge> 11 + unat (bs ! 10))"

definition stored_NewReader :: "byte list \<Rightarrow> gz_header option" where
  "stored_NewReader bs =
     (if stored_valid bs
      then Some \<lparr>Name = map (\<lambda>b. char_of (unat b)) (take (unat (bs ! 10)) (drop 11 bs)),
                 ModTime = int (le_value (take 8 (drop 2 bs)))\<rparr>
      else None)"

definition stored_ReadAll :: "byte list \<Rightarrow> byte list \<times> bool" where
  "stored_ReadAll bs =
     (if stored_valid bs then (drop (11 + unat (bs ! 10)) bs, True) else ([], False))"

text \<open>A name of more than 255 bytes has no length byte: the writer stops after the magic bytes.\<close>

definition stored_rejects :: "int \<Rightarrow> gz_header \<Rightarrow> byte list option" where
  "stored_rejects l h = (if length (Name h) > 255 then Some [31, 139] else None)"

definition stored_codec :: gzip_codec where
  "stored_codec =
     \<lparr>gz_encode = stored_encode, gz_rejects = stored_rejects,
      gz_NewReader = stored_NewReader, gz_ReadAll = stored_ReadAll,
      gz_ReadAllOverwritten = (\<lambda>bs. ([], False))\<rparr>"

text \<open>
  A world for the examples: a directory docs with the file docs/a.txt (three bytes,
  modification time 5), an empty file docs/empty and a file docs/zero.txt whose
  modification time is the zero time, and an output directory out. The clock stands at
  1000.
\<close>

definition example_world :: world where
  "example_world =
     \<lparr>nodes = [''docs'' \<mapsto> new_dir 1, ''out'' \<mapsto> new_dir 1,
               ''docs/a.txt'' \<mapsto> \<lparr>isDir = False, content = [104, 105, 10], modTime = 5,
                                  readable = True, writable = True\<rparr>,
               ''docs/empty'' \<mapsto> \<lparr>isDir = False, content = [], modTime = 7,
                                  readable = True, writable = True\<rparr>,
               ''docs/zero.txt'' \<mapsto> \<lparr>isDir = False, content = [122], modTime = 0,
                                  readable = True, writable = True\<rparr>],
      clock = 1000, stdout = [],
      stat_error = (\<lambda>p. None), copy_error = (\<lambda>p. None), close_error = (\<lambda>p. None)\<rparr>"

text \<open>The example world after docs/a.txt was compressed to out/a.txt.gz at level 6.\<close>

definition example_compressed :: world where
  "example_compressed =
     fst (CompressFile stored_codec (NewFileCompressor 6) example_world ''docs/a.txt'' ''out/a.txt.gz'')"

subsection \<open>Errors of the walk and worlds for the directory examples\<close>

text \<open>
  The errors a directory operation returns for the walk itself, for setting up a
  directory or for the relative path; the others are those of the file operations.
\<close>

fun walk_level_error :: "error \<Rightarrow> bool" where
  "walk_level_error (PathError e) = True"
| "walk_level_error RelError = True"
| "walk_level_error (FailedToCreateOutputDirectory e) = True"
| "walk_level_error _ = False"

text \<open>
  An input directory with the file a, the directory a.gz holding the file b, and the
  file c; there is no output directory yet.
\<close>

definition clash_world :: world where
  "clash_world =
     \<lparr>nodes = [''in'' \<mapsto> new_dir 1,
               ''in/a'' \<mapsto> \<lparr>isDir = False, content = [1], modTime = 5, readable = True, writable = True\<rparr>,
               ''in/a.gz'' \<mapsto> new_dir 1,
               ''in/a.gz/b'' \<mapsto> \<lparr>isDir = False, content = [2], modTime = 5, readable = True, writable = True\<rparr>,
               ''in/c'' \<mapsto> \<lparr>isDir = False, content = [3], modTime = 5, readable = True, writable = True\<rparr>],
      clock = 1000, stdout = [],
      stat_error = (\<lambda>p. None), copy_error = (\<lambda>p. None), close_error = (\<lambda>p. None)\<rparr>"

definition clash_tree :: walk_tree where
  "clash_tree = WDir [(''a'', WFile), (''a.gz'', WDir [(''b'', WFile)]), (''c'', WFile)]"

text \<open>An input directory whose file a cannot be read, and an output directory.\<close>

definition locked_world :: world where
  "locked_world =
     \<lparr>nodes = [''in'' \<mapsto> new_dir 1,
               ''in/a'' \<mapsto> \<lparr>isDir = False, content = [1], modTime = 5, readable = False, writable = True\<rparr>,
               ''in/b'' \<mapsto> \<lparr>isDir = False, content = [2], modTime = 5, readable = True, writable = True\<rparr>,
               ''out'' \<mapsto> new_dir 1],
      clock = 1000, stdout = [],
      stat_error = (\<lambda>p. None), copy_error = (\<lambda>p. None), close_error = (\<lambda>p. None)\<rparr>"

definition locked_tree :: walk_tree where
  "locked_tree = WDir [(''a'', WFile), (''b'', WFile)]"

section \<open>Properties\<close>

subsection \<open>Construction\<close>

text \<open>
  Claim C6. For every integer level, the compressor built by NewFileCompressor holds
  that level when it lies in 1..9 and the default 6 otherwise. The level is the only
  field, and every operation of the package takes the compressor as a value it only
  reads: none returns a changed compressor.
\<close>

theorem C6_NewFileCompressor_level:
  "compressionLevel (NewFileCompressor level) = (if 1 \<le> level \<and> level \<le> 9 then level else 6)"
  by (simp add: NewFileCompressor_def)

theorem C6_NewFileCompressor_level_witness:
  "compressionLevel (NewFileCompressor 9) = 9 \<and> compressionLevel (NewFileCompressor 0) = 6
   \<and> compressionLevel (NewFileCompressor 10) = 6"
  using C6_NewFileCompressor_level [of 9] C6_NewFileCompressor_level [of 0]
    C6_NewFileCompressor_level [of 10]
  by simp

subsection \<open>Level selection through the command\<close>

text \<open>
  Claim C5 (evaluation at the failing input). The user picks option 1 (compress a file)
  and the program was started with the level 9 as its fourth argument: main builds the
  compressor with level 6. The level is parsed only when the prompt's answer is the word
  compress or compress-dir, and those answers are not keys of the menu.
\<close>

theorem C5_level_argument_ignored:
  "main_dispatch [''filecompressor'', ''compress'', ''a.txt'', ''a.txt.gz'', ''9''] ''1'' ''a.txt'' ''a.txt.gz''
     = CallCompressFile \<lparr>compressionLevel = 6\<rparr> ''a.txt'' ''a.txt.gz''"
  by (simp add: main_dispatch_def parseCompressionLevel_def m_def NewFileCompressor_def)

text \<open>
  More generally, whenever main reaches one of the four operations, whatever the
  arguments of the program, the level it parsed is the default.
\<close>

lemma main_level_always_default:
  "main_dispatch Args command inputPath outputPath \<noteq> UnknownCommand command
     \<Longrightarrow> parseCompressionLevel Args command = 6"
  by (auto simp: main_dispatch_def m_def parseCompressionLevel_def Let_def split: if_splits)

subsection \<open>Destination paths of DecompressDirectory\<close>

text \<open>
  Claim C2 (evaluation at the failing input). CompressDirectory maps the file
  a/b/c.txt.gz of its input to out/a/b/c.txt.gz.gz. DecompressDirectory on that output
  maps the relative path a/b/c.txt.gz.gz to restored/a/b/c.txt: it keeps what stands
  before the first occurrence of .gz, where removing the suffix gives a/b/c.txt.gz.
\<close>

theorem C2_decompress_path_cut_at_first_gz:
  "compress_outputPath ''out'' ''a/b/c.txt.gz'' = ''out/a/b/c.txt.gz.gz''
   \<and> decompress_outputPath ''restored'' ''a/b/c.txt.gz.gz'' = ''restored/a/b/c.txt''
   \<and> Join ''restored'' (TrimSuffix ''a/b/c.txt.gz.gz'' ''.gz'') = ''restored/a/b/c.txt.gz''"
  by (simp add: compress_outputPath_def decompress_outputPath_def Join_def Clean_def
      clean_elems_def rooted_def TrimSuffix_def HasSuffix_def)

subsection \<open>What the file operations do to the world\<close>

lemma CompressFile_results:
  "(fst (snd (CompressFile gz fc w i p)) = None) = (snd (snd (CompressFile gz fc w i p)) \<noteq> None)"
  by (simp add: CompressFile_def Let_def split: sum.split option.split prod.split)

lemma DecompressFile_results:
  "(fst (snd (DecompressFile gz fc w i p)) = None) = (snd (snd (DecompressFile gz fc w i p)) \<noteq> None)"
  by (simp add: DecompressFile_def Let_def split: sum.split option.split prod.split)

lemma os_Create_Inr:
  assumes "os_Create w p = Inr w1"
  shows "\<exists>n. w1 = put_node w p n \<and> \<not> isDir n \<and> content n = [] \<and> modTime n = clock w"
    and "\<not> (clean_elems p = [] \<or> last (clean_elems p) = ''..'')"
proof -
  show "\<exists>n. w1 = put_node w p n \<and> \<not> isDir n \<and> content n = [] \<and> modTime n = clock w"
    using assms
    by (auto simp: os_Create_def new_file_def split: option.splits if_splits)
  show "\<not> (clean_elems p = [] \<or> last (clean_elems p) = ''..'')"
  proof
    assume "clean_elems p = [] \<or> last (clean_elems p) = ''..''"
    then have "node_at w p = Some (new_dir 0)"
      by (simp add: node_at_def)
    with assms show False
      by (simp add: os_Create_def new_dir_def split: option.splits if_splits)
  qed
qed

lemma os_Open_file:
  assumes "os_Open w p = Inr n" and "\<not> isDir n"
  shows "nodes w (Clean p) = Some n"
    and "\<not> (clean_elems p = [] \<or> last (clean_elems p) = ''..'')"
proof -
  have a: "node_at w p = Some n"
    using assms(1) by (auto simp: os_Open_def split: option.splits if_splits)
  show "\<not> (clean_elems p = [] \<or> last (clean_elems p) = ''..'')"
    using a assms(2) by (auto simp: node_at_def new_dir_def split: if_splits)
  then show "nodes w (Clean p) = Some n"
    using a by (simp add: node_at_def)
qed

lemma write_all_put:
  "nodes (put_node w p n) (Clean p) = Some n"
  "write_all (put_node w p n) p bs = put_node w p (n\<lparr>content := bs, modTime := clock w\<rparr>)"
  by (simp_all add: write_all_def put_node_def)

lemma clock_put_node [simp]: "clock (put_node w p n) = clock w"
  by (simp add: put_node_def)

lemma read_after_create:
  assumes "os_Open w i = Inr n" and "\<not> isDir n" and "os_Create w p = Inr w1"
  shows "read_all w1 i = Inr (if Clean i = Clean p then [] else content n)"
proof -
  obtain n' where w1: "w1 = put_node w p n'" and n': "\<not> isDir n'" "content n' = []"
    using os_Create_Inr(1) [OF assms(3)] by blast
  note f = os_Open_file [OF assms(1,2)]
  show ?thesis
    using f n' assms(2) by (simp add: read_all_def node_at_def w1 put_node_def)
qed

lemma clock_write_all [simp]: "clock (write_all w p bs) = clock w"
  by (simp add: write_all_def put_node_def split: option.split)

lemma os_Create_clock: "os_Create w p = Inr w1 \<Longrightarrow> clock w1 = clock w"
  using os_Create_Inr(1) [of w p w1] by auto

lemma CompressFile_Some:
  assumes "snd (snd (CompressFile gz fc w i p)) = None"
  shows "\<exists>n w1 data. os_Open w i = Inr n \<and> os_Create w p = Inr w1 \<and> read_all w1 i = Inr data
           \<and> CompressFile gz fc w i p =
               (write_all w1 p (gz_encode gz (compressionLevel fc)
                                  \<lparr>Name = Base i, ModTime = modTime n\<rparr> data),
                Some \<lparr>OriginalSize = int (length (content n)), CompressedSize = int (length data),
                      CompressionRatio = ratio (int (length data)) (int (length (content n))),
                      TimeTaken = 0\<rparr>,
                None)"
proof -
  let ?h = "\<lambda>n. \<lparr>Name = Base i, ModTime = modTime n\<rparr>"
  from assms obtain n where o: "os_Open w i = Inr n"
    by (cases "os_Open w i") (auto simp: CompressFile_def)
  from assms o have st: "os_Stat w i n = Inr n"
    by (cases "stat_error w (Clean i)") (auto simp: CompressFile_def os_Stat_def)
  from assms o st obtain w1 where c: "os_Create w p = Inr w1"
    by (cases "os_Create w p") (auto simp: CompressFile_def)
  from assms o st c have v: "valid_gzip_level (compressionLevel fc)"
    by (auto simp: CompressFile_def split: if_splits)
  from assms o st c v obtain data where r: "read_all w1 i = Inr data"
    by (cases "read_all w1 i") (auto simp: CompressFile_def Let_def)
  from assms o st c v r have wc: "writer_copy gz w1 p (compressionLevel fc) (?h n) data = None"
    by (cases "writer_copy gz w1 p (compressionLevel fc) (?h n) data")
       (auto simp: CompressFile_def Let_def)
  obtain written e where cl: "writer_close gz w1 p (compressionLevel fc) (?h n) data = (written, e)"
    by (cases "writer_close gz w1 p (compressionLevel fc) (?h n) data") auto
  from assms o st c v r wc cl have e: "e = None"
    by (cases e) (auto simp: CompressFile_def Let_def)
  have wr: "written = gz_encode gz (compressionLevel fc) (?h n) data"
    using cl e by (auto simp: writer_close_def split: option.splits prod.splits)
  have "CompressFile gz fc w i p =
               (write_all w1 p (gz_encode gz (compressionLevel fc) (?h n) data),
                Some \<lparr>OriginalSize = int (length (content n)), CompressedSize = int (length data),
                      CompressionRatio = ratio (int (length data)) (int (length (content n))),
                      TimeTaken = 0\<rparr>,
                None)"
    using wr e by (simp add: CompressFile_def o st c v r wc cl Let_def os_Create_clock [OF c])
  with o c r show ?thesis by blast
qed

lemma CompressFile_success:
  assumes "os_Open w i = Inr n" and "\<not> isDir n"
    and "CompressFile gz fc w i p = (w', Some s, None)"
  shows "\<exists>n'. \<not> isDir n' \<and>
           w' = put_node w p (n'\<lparr>content := gz_encode gz (compressionLevel fc)
                  \<lparr>Name = Base i, ModTime = modTime n\<rparr> (if Clean i = Clean p then [] else content n),
                modTime := clock w\<rparr>)"
    and "s = \<lparr>OriginalSize = int (length (content n)),
              CompressedSize = (if Clean i = Clean p then 0 else int (length (content n))),
              CompressionRatio = ratio (if Clean i = Clean p then 0 else int (length (content n)))
                                   (int (length (content n))),
              TimeTaken = 0\<rparr>"
proof -
  have "snd (snd (CompressFile gz fc w i p)) = None"
    by (simp add: assms(3))
  from CompressFile_Some [OF this] assms(1) obtain w1 data where
    c: "os_Create w p = Inr w1" and r: "read_all w1 i = Inr data"
    and eq: "CompressFile gz fc w i p =
               (write_all w1 p (gz_encode gz (compressionLevel fc)
                                  \<lparr>Name = Base i, ModTime = modTime n\<rparr> data),
                Some \<lparr>OriginalSize = int (length (content n)), CompressedSize = int (length data),
                      CompressionRatio = ratio (int (length data)) (int (length (content n))),
                      TimeTaken = 0\<rparr>,
                None)"
    by auto
  obtain n' where w1: "w1 = put_node w p n'" and n': "\<not> isDir n'" "content n' = []"
    using os_Create_Inr(1) [OF c] by blast
  have d: "data = (if Clean i = Clean p then [] else content n)"
    using read_after_create [OF assms(1,2) c] r by simp
  show "\<exists>n'. \<not> isDir n' \<and>
           w' = put_node w p (n'\<lparr>content := gz_encode gz (compressionLevel fc)
                  \<lparr>Name = Base i, ModTime = modTime n\<rparr> (if Clean i = Clean p then [] else content n),
                modTime := clock w\<rparr>)"
    using assms(3) n' unfolding eq w1 d
    by (auto simp: write_all_put split: if_splits)
  show "s = \<lparr>OriginalSize = int (length (content n)),
              CompressedSize = (if Clean i = Clean p then 0 else int (length (content n))),
              CompressionRatio = ratio (if Clean i = Clean p then 0 else int (length (content n)))
                                   (int (length (content n))),
              TimeTaken = 0\<rparr>"
    using assms(3) unfolding eq d
    by (auto split: if_splits)
qed

lemma put_node_twice [simp]: "put_node (put_node w p a) p b = put_node w p b"
  by (simp add: put_node_def)

lemma os_Chtimes_put:
  "os_Chtimes (put_node w p n) p a t = put_node w p (n\<lparr>modTime := t\<rparr>)"
  by (simp add: os_Chtimes_def put_node_def)

lemma ratio_Finite:
  "0 < original \<Longrightarrow> ratio processed original = Finite (of_int processed / of_int original * 100)"
  by (simp add: ratio_def float64_of_int_def)

lemma ratio_zero_zero: "ratio 0 0 = NaN"
  by (simp add: ratio_def float64_of_int_def)

lemma DecompressFile_success:
  assumes "snd (snd (DecompressFile gz fc w i p)) = None"
  shows "\<exists>n h out n'. os_Open w i = Inr n \<and> \<not> isDir n \<and> gz_NewReader gz (content n) = Some h
           \<and> reader_ReadAll gz i p (content n) = (out, True) \<and> \<not> isDir n'
           \<and> DecompressFile gz fc w i p =
               (put_node w p (n'\<lparr>content := out,
                    modTime := (if IsZero (ModTime h) then clock w else ModTime h)\<rparr>),
                Some \<lparr>OriginalSize = int (length (content n)), CompressedSize = int (length out),
                      CompressionRatio = ratio (int (length out)) (int (length (content n))),
                      TimeTaken = 0\<rparr>,
                None)"
proof -
  from assms obtain n where o: "os_Open w i = Inr n"
    by (cases "os_Open w i") (auto simp: DecompressFile_def)
  from assms o have st: "os_Stat w i n = Inr n"
    by (cases "stat_error w (Clean i)") (auto simp: DecompressFile_def os_Stat_def)
  from assms o st have d: "\<not> isDir n"
    by (auto simp: DecompressFile_def split: if_splits)
  from assms o st d obtain h where h: "gz_NewReader gz (content n) = Some h"
    by (cases "gz_NewReader gz (content n)") (auto simp: DecompressFile_def)
  from assms o st d h obtain w1 where c: "os_Create w p = Inr w1"
    by (cases "os_Create w p") (auto simp: DecompressFile_def)
  obtain out ok where r: "reader_ReadAll gz i p (content n) = (out, ok)"
    by (cases "reader_ReadAll gz i p (content n)") auto
  from assms o st d h c r have ce: "(if out = [] then None else copy_error w1 (Clean p)) = None"
    by (cases "if out = [] then None else copy_error w1 (Clean p)")
       (auto simp: DecompressFile_def Let_def)
  from assms o st d h c r ce have ok: "ok"
    by (auto simp: DecompressFile_def Let_def split: if_splits)
  obtain n' where w1: "w1 = put_node w p n'" and n': "\<not> isDir n'"
    using os_Create_Inr(1) [OF c] by blast
  have "DecompressFile gz fc w i p =
               (put_node w p (n'\<lparr>content := out,
                    modTime := (if IsZero (ModTime h) then clock w else ModTime h)\<rparr>),
                Some \<lparr>OriginalSize = int (length (content n)), CompressedSize = int (length out),
                      CompressionRatio = ratio (int (length out)) (int (length (content n))),
                      TimeTaken = 0\<rparr>,
                None)"
    using ce by (simp add: DecompressFile_def o st d h c r ok Let_def write_all_put os_Chtimes_put)
       (simp add: w1 write_all_put os_Chtimes_put)
  moreover from r ok have "reader_ReadAll gz i p (content n) = (out, True)" by simp
  ultimately show ?thesis using o d h n' by blast
qed

lemma read_after_create_any:
  assumes "os_Open w i = Inr n" and "os_Create w p = Inr w1" and "read_all w1 i = Inr data"
  shows "data = (if Clean i = Clean p then [] else content n)"
proof -
  obtain n' where w1: "w1 = put_node w p n'" and n': "content n' = []"
    using os_Create_Inr(1) [OF assms(2)] by blast
  obtain m where m: "node_at w1 i = Some m" "\<not> isDir m" "data = content m"
    using assms(3) by (auto simp: read_all_def split: option.splits if_splits)
  have ns: "\<not> (clean_elems i = [] \<or> last (clean_elems i) = ''..'')"
    using m(1,2) by (auto simp: node_at_def new_dir_def split: if_splits)
  then have k: "nodes w1 (Clean i) = Some m"
    using m(1) by (simp add: node_at_def)
  have o: "nodes w (Clean i) = Some n"
    using assms(1) ns by (auto simp: os_Open_def node_at_def split: option.splits if_splits)
  show ?thesis
    using k o n' m(3) by (auto simp: w1 put_node_def split: if_splits)
qed

subsection \<open>An example run\<close>

text \<open>
  In the example world docs/a.txt is compressed to out/a.txt.gz, which is decompressed to
  out/a.txt; the empty file docs/empty is compressed to out/empty.gz.
\<close>

lemma example_paths:
  "Clean ''docs/a.txt'' = ''docs/a.txt''" "clean_elems ''docs/a.txt'' = [''docs'', ''a.txt'']"
  "Clean ''docs/empty'' = ''docs/empty''" "clean_elems ''docs/empty'' = [''docs'', ''empty'']"
  by (simp_all add: Clean_def clean_elems_def rooted_def)

lemma example_open_a:
  "os_Open example_world ''docs/a.txt''
     = Inr \<lparr>isDir = False, content = [104, 105, 10], modTime = 5, readable = True, writable = True\<rparr>"
  by code_simp

lemma example_compress_a:
  "snd (snd (CompressFile stored_codec (NewFileCompressor 6) example_world
               ''docs/a.txt'' ''out/a.txt.gz'')) = None"
  by code_simp

lemma example_open_a_gz:
  "os_Open example_compressed ''out/a.txt.gz''
     = Inr \<lparr>isDir = False,
            content = [31, 139, 5, 0, 0, 0, 0, 0, 0, 0, 5, 97, 46, 116, 120, 116, 104, 105, 10],
            modTime = 1000, readable = True, writable = True\<rparr>"
  by code_simp

lemma example_header_a_gz:
  "gz_NewReader stored_codec
     [31, 139, 5, 0, 0, 0, 0, 0, 0, 0, 5, 97, 46, 116, 120, 116, 104, 105, 10]
     = Some \<lparr>Name = ''a.txt'', ModTime = 5\<rparr>"
  by code_simp

lemma example_decompress_a_gz:
  "snd (snd (DecompressFile stored_codec (NewFileCompressor 6) example_compressed
               ''out/a.txt.gz'' ''out/a.txt'')) = None"
  by code_simp

lemma example_facts_a:
  "Base ''docs/a.txt'' = ''a.txt''" "compressionLevel (NewFileCompressor 6) = 6"
  "Clean ''docs/a.txt'' \<noteq> Clean ''out/a.txt.gz''"
  "Clean ''out/a.txt.gz'' \<noteq> Clean ''out/a.txt''"
  by code_simp+

lemma example_roundtrip_a:
  "gz_NewReader stored_codec (gz_encode stored_codec 6 \<lparr>Name = ''a.txt'', ModTime = 5\<rparr> [104, 105, 10])
     = Some \<lparr>Name = ''a.txt'', ModTime = 5\<rparr>"
  "gz_ReadAll stored_codec (gz_encode stored_codec 6 \<lparr>Name = ''a.txt'', ModTime = 5\<rparr> [104, 105, 10])
     = ([104, 105, 10], True)"
  by code_simp+

lemma example_empty:
  "os_Open example_world ''docs/empty''
     = Inr \<lparr>isDir = False, content = [], modTime = 7, readable = True, writable = True\<rparr>"
  "snd (snd (CompressFile stored_codec (NewFileCompressor 6) example_world
               ''docs/empty'' ''out/empty.gz'')) = None"
  "gz_NewReader stored_codec [] = None"
  by code_simp+

lemma example_stats:
  "fst (snd (CompressFile stored_codec (NewFileCompressor 6) example_world
               ''docs/a.txt'' ''out/a.txt.gz''))
     = Some \<lparr>OriginalSize = 3, CompressedSize = 3, CompressionRatio = Finite 100, TimeTaken = 0\<rparr>"
  "fst (snd (DecompressFile stored_codec (NewFileCompressor 6) example_compressed
               ''out/a.txt.gz'' ''out/a.txt''))
     = Some \<lparr>OriginalSize = 19, CompressedSize = 3, CompressionRatio = Finite (300 / 19),
             TimeTaken = 0\<rparr>"
  by code_simp+

text \<open>
  With a writer that rejects the header (as the gzip writer does for a name that is not
  Latin-1), compressing the empty file fails when the writer is closed, and compressing
  a file with data fails in the copy.
\<close>

lemma example_header_rejected:
  "snd (snd (CompressFile (stored_codec\<lparr>gz_rejects := (\<lambda>l h. Some [31, 139])\<rparr>)
               (NewFileCompressor 6) example_world ''docs/empty'' ''out/empty.gz''))
     = Some (FailedToCloseGzipWriter HeaderError)"
  "snd (snd (CompressFile (stored_codec\<lparr>gz_rejects := (\<lambda>l h. Some [31, 139])\<rparr>)
               (NewFileCompressor 6) example_world ''docs/a.txt'' ''out/a.txt.gz''))
     = Some (FailedToCompressFile HeaderError)"
  by code_simp+

subsection \<open>Results of the two file operations\<close>

text \<open>
  Claim C9. Every call of CompressFile and of DecompressFile returns either no statistics
  and an error, or statistics and no error: the statistics are nil exactly when the
  error is not. The statistics of a successful call have all four fields set from the
  call: the original size is the size of the input when it was opened; the processed
  size is the number of bytes copied (for CompressFile the bytes read from the input
  after the output was created, for DecompressFile the bytes the output file holds);
  the ratio is that of the two sizes; the time is the clock's advance during the call.
\<close>

theorem C9_stats_xor_error:
  "(fst (snd (CompressFile gz fc w inputPath outputPath)) = None)
     = (snd (snd (CompressFile gz fc w inputPath outputPath)) \<noteq> None)
   \<and> (fst (snd (DecompressFile gz fc w inputPath outputPath)) = None)
     = (snd (snd (DecompressFile gz fc w inputPath outputPath)) \<noteq> None)
   \<and> (\<forall>stats. fst (snd (CompressFile gz fc w inputPath outputPath)) = Some stats \<longrightarrow>
         (\<exists>inputInfo w1 data.
            os_Open w inputPath = Inr inputInfo \<and> os_Create w outputPath = Inr w1
            \<and> read_all w1 inputPath = Inr data
            \<and> stats = \<lparr>OriginalSize = int (length (content inputInfo)),
                        CompressedSize = int (length data),
                        CompressionRatio = ratio (int (length data)) (int (length (content inputInfo))),
                        TimeTaken = clock (fst (CompressFile gz fc w inputPath outputPath)) - clock w\<rparr>))
   \<and> (\<forall>stats. fst (snd (DecompressFile gz fc w inputPath outputPath)) = Some stats \<longrightarrow>
         (\<exists>inputInfo out.
            os_Open w inputPath = Inr inputInfo
            \<and> map_option content (nodes (fst (DecompressFile gz fc w inputPath outputPath))
                                      (Clean outputPath)) = Some out
            \<and> stats = \<lparr>OriginalSize = int (length (content inputInfo)),
                        CompressedSize = int (length out),
                        CompressionRatio = ratio (int (length out)) (int (length (content inputInfo))),
                        TimeTaken = clock (fst (DecompressFile gz fc w inputPath outputPath)) - clock w\<rparr>))"
proof -
  let ?c = "CompressFile gz fc w inputPath outputPath"
  let ?d = "DecompressFile gz fc w inputPath outputPath"
  have 1: "(fst (snd ?c) = None) = (snd (snd ?c) \<noteq> None)"
    by (simp add: CompressFile_def Let_def split: sum.split option.split prod.split)
  have 2: "(fst (snd ?d) = None) = (snd (snd ?d) \<noteq> None)"
    by (simp add: DecompressFile_def Let_def split: sum.split option.split prod.split)
  have 3: "\<forall>stats. fst (snd ?c) = Some stats \<longrightarrow>
         (\<exists>inputInfo w1 data.
            os_Open w inputPath = Inr inputInfo \<and> os_Create w outputPath = Inr w1
            \<and> read_all w1 inputPath = Inr data
            \<and> stats = \<lparr>OriginalSize = int (length (content inputInfo)),
                        CompressedSize = int (length data),
                        CompressionRatio = ratio (int (length data)) (int (length (content inputInfo))),
                        TimeTaken = clock (fst ?c) - clock w\<rparr>)"
  proof (intro allI impI)
    fix stats assume s: "fst (snd ?c) = Some stats"
    with 1 have "snd (snd ?c) = None" by auto
    from CompressFile_Some [OF this] obtain n w1 data where
      f: "os_Open w inputPath = Inr n" "os_Create w outputPath = Inr w1"
         "read_all w1 inputPath = Inr data"
      and eq: "?c = (write_all w1 outputPath (gz_encode gz (compressionLevel fc)
                                  \<lparr>Name = Base inputPath, ModTime = modTime n\<rparr> data),
                Some \<lparr>OriginalSize = int (length (content n)), CompressedSize = int (length data),
                      CompressionRatio = ratio (int (length data)) (int (length (content n))),
                      TimeTaken = 0\<rparr>,
                None)"
      by blast
    have "stats = \<lparr>OriginalSize = int (length (content n)),
                        CompressedSize = int (length data),
                        CompressionRatio = ratio (int (length data)) (int (length (content n))),
                        TimeTaken = clock (fst ?c) - clock w\<rparr>"
      using s by (simp add: eq os_Create_clock [OF f(2)])
    with f show "\<exists>inputInfo w1 data.
            os_Open w inputPath = Inr inputInfo \<and> os_Create w outputPath = Inr w1
            \<and> read_all w1 inputPath = Inr data
            \<and> stats = \<lparr>OriginalSize = int (length (content inputInfo)),
                        CompressedSize = int (length data),
                        CompressionRatio = ratio (int (length data)) (int (length (content inputInfo))),
                        TimeTaken = clock (fst ?c) - clock w\<rparr>"
      by blast
  qed
  have 4: "\<forall>stats. fst (snd ?d) = Some stats \<longrightarrow>
         (\<exists>inputInfo out.
            os_Open w inputPath = Inr inputInfo
            \<and> map_option content (nodes (fst ?d) (Clean outputPath)) = Some out
            \<and> stats = \<lparr>OriginalSize = int (length (content inputInfo)),
                        CompressedSize = int (length out),
                        CompressionRatio = ratio (int (length out)) (int (length (content inputInfo))),
                        TimeTaken = clock (fst ?d) - clock w\<rparr>)"
  proof (intro allI impI)
    fix stats assume s: "fst (snd ?d) = Some stats"
    with 2 have "snd (snd ?d) = None" by auto
    from DecompressFile_success [OF this] obtain n and h :: gz_header and out n' where
      f: "os_Open w inputPath = Inr n"
      and eq: "?d = (put_node w outputPath (n'\<lparr>content := out,
                    modTime := (if IsZero (ModTime h) then clock w else ModTime h)\<rparr>),
                Some \<lparr>OriginalSize = int (length (content n)), CompressedSize = int (length out),
                      CompressionRatio = ratio (int (length out)) (int (length (content n))),
                      TimeTaken = 0\<rparr>,
                None)"
      by blast
    have a: "map_option content (nodes (fst ?d) (Clean outputPath)) = Some out"
      by (simp add: eq put_node_def)
    have "stats = \<lparr>OriginalSize = int (length (content n)),
                        CompressedSize = int (length out),
                        CompressionRatio = ratio (int (length out)) (int (length (content n))),
                        TimeTaken = clock (fst ?d) - clock w\<rparr>"
      using s by (simp add: eq)
    with f a show "\<exists>inputInfo out.
            os_Open w inputPath = Inr inputInfo
            \<and> map_option content (nodes (fst ?d) (Clean outputPath)) = Some out
            \<and> stats = \<lparr>OriginalSize = int (length (content inputInfo)),
                        CompressedSize = int (length out),
                        CompressionRatio = ratio (int (length out)) (int (length (content inputInfo))),
                        TimeTaken = clock (fst ?d) - clock w\<rparr>"
      by blast
  qed
  from 1 2 3 4 show ?thesis by blast
qed

theorem C9_stats_xor_error_witness:
  "fst (snd (CompressFile stored_codec (NewFileCompressor 6) example_world
               ''docs/a.txt'' ''out/a.txt.gz''))
     = Some \<lparr>OriginalSize = 3, CompressedSize = 3, CompressionRatio = Finite 100, TimeTaken = 0\<rparr>
   \<and> (\<exists>inputInfo w1 data.
         os_Open example_world ''docs/a.txt'' = Inr inputInfo
         \<and> os_Create example_world ''out/a.txt.gz'' = Inr w1
         \<and> read_all w1 ''docs/a.txt'' = Inr data
         \<and> \<lparr>OriginalSize = 3, CompressedSize = 3, CompressionRatio = Finite 100, TimeTaken = 0\<rparr>
             = \<lparr>OriginalSize = int (length (content inputInfo)),
                CompressedSize = int (length data),
                CompressionRatio = ratio (int (length data)) (int (length (content inputInfo))),
                TimeTaken = clock (fst (CompressFile stored_codec (NewFileCompressor 6) example_world
                                          ''docs/a.txt'' ''out/a.txt.gz'')) - clock example_world\<rparr>)
   \<and> fst (snd (DecompressFile stored_codec (NewFileCompressor 6) example_compressed
               ''out/a.txt.gz'' ''out/a.txt''))
     = Some \<lparr>OriginalSize = 19, CompressedSize = 3, CompressionRatio = Finite (300 / 19),
             TimeTaken = 0\<rparr>
   \<and> (\<exists>inputInfo out.
         os_Open example_compressed ''out/a.txt.gz'' = Inr inputInfo
         \<and> map_option content (nodes (fst (DecompressFile stored_codec (NewFileCompressor 6)
               example_compressed ''out/a.txt.gz'' ''out/a.txt'')) (Clean ''out/a.txt'')) = Some out
         \<and> \<lparr>OriginalSize = 19, CompressedSize = 3, CompressionRatio = Finite (300 / 19),
             TimeTaken = 0\<rparr>
             = \<lparr>OriginalSize = int (length (content inputInfo)),
                CompressedSize = int (length out),
                CompressionRatio = ratio (int (length out)) (int (length (content inputInfo))),
                TimeTaken = clock (fst (DecompressFile stored_codec (NewFileCompressor 6)
                               example_compressed ''out/a.txt.gz'' ''out/a.txt''))
                            - clock example_compressed\<rparr>)"
  using C9_stats_xor_error [of stored_codec "NewFileCompressor 6" example_world
      "''docs/a.txt''" "''out/a.txt.gz''"]
    C9_stats_xor_error [of stored_codec "NewFileCompressor 6" example_compressed
      "''out/a.txt.gz''" "''out/a.txt''"]
    example_stats
  by blast

text \<open>
  Claim C10. When the input opens and the gzip reader rejects its header, DecompressFile
  fails and leaves the world as it found it: the output path is neither created nor
  truncated, since \<^verbatim>\<open>os.Create\<close> comes after \<^verbatim>\<open>gzip.NewReader\<close>. The error is the
  reader's, or that of \<^verbatim>\<open>Stat\<close> when the system lets it fail, which comes earlier
  still.
\<close>

theorem C10_invalid_header_leaves_world:
  assumes "os_Open w inputPath = Inr inputInfo"
    and "gz_NewReader gz (content inputInfo) = None"
  shows "DecompressFile gz fc w inputPath outputPath
           = (w, None,
              Some (case stat_error w (Clean inputPath) of
                      None \<Rightarrow> FailedToCreateGzipReader
                    | Some e \<Rightarrow> FailedToGetCompressedFileInfo e))"
  using assms by (simp add: DecompressFile_def os_Stat_def split: option.split)

text \<open>
  The empty file docs/empty is no container; decompressing it onto the existing file
  docs/a.txt changes nothing.
\<close>

theorem C10_invalid_header_leaves_world_witness:
  "os_Open example_world ''docs/empty''
     = Inr \<lparr>isDir = False, content = [], modTime = 7, readable = True, writable = True\<rparr>
   \<and> gz_NewReader stored_codec [] = None
   \<and> DecompressFile stored_codec (NewFileCompressor 6) example_world ''docs/empty'' ''docs/a.txt''
       = (example_world, None, Some FailedToCreateGzipReader)"
proof -
  have o: "os_Open example_world ''docs/empty''
      = Inr \<lparr>isDir = False, content = [], modTime = 7, readable = True, writable = True\<rparr>"
    by (simp add: os_Open_def node_at_def example_paths example_world_def)
  have r: "gz_NewReader stored_codec
      (content \<lparr>isDir = False, content = [], modTime = 7, readable = True, writable = True\<rparr>) = None"
    by (simp add: stored_codec_def stored_NewReader_def stored_valid_def)
  have s: "stat_error example_world (Clean ''docs/empty'') = None"
    by (simp add: example_world_def)
  show ?thesis
    using C10_invalid_header_leaves_world [OF o r] o r s by simp
qed

subsection \<open>Metadata of the container\<close>

text \<open>
  Claim C8. When CompressFile succeeds on a regular file, the output holds the container
  the gzip writer produces under the header with the base name of the input path and the
  modification time the input had on disk. When DecompressFile succeeds and the header
  its reader found has a modification time that is not zero, the output file carries
  that modification time.
\<close>

theorem C8_metadata_embedded_and_restored:
  assumes "os_Open w inputPath = Inr inputInfo" and "\<not> isDir inputInfo"
    and "snd (snd (CompressFile gz fc w inputPath outputPath)) = None"
    and "os_Open v inPath = Inr info2"
    and "gz_NewReader gz (content info2) = Some gzReader"
    and "\<not> IsZero (ModTime gzReader)"
    and "snd (snd (DecompressFile gz fc v inPath outPath)) = None"
  shows "map_option content (nodes (fst (CompressFile gz fc w inputPath outputPath)) (Clean outputPath))
           = Some (gz_encode gz (compressionLevel fc)
                    \<lparr>Name = Base inputPath, ModTime = modTime inputInfo\<rparr>
                    (if Clean inputPath = Clean outputPath then [] else content inputInfo))
         \<and> map_option modTime (nodes (fst (DecompressFile gz fc v inPath outPath)) (Clean outPath))
           = Some (ModTime gzReader)"
proof -
  obtain w1 s1 where c: "CompressFile gz fc w inputPath outputPath = (w1, Some s1, None)"
    using assms(3) CompressFile_results [of gz fc w inputPath outputPath]
    by (cases "CompressFile gz fc w inputPath outputPath") auto
  have a: "map_option content (nodes (fst (CompressFile gz fc w inputPath outputPath)) (Clean outputPath))
           = Some (gz_encode gz (compressionLevel fc)
                    \<lparr>Name = Base inputPath, ModTime = modTime inputInfo\<rparr>
                    (if Clean inputPath = Clean outputPath then [] else content inputInfo))"
    using CompressFile_success(1) [OF assms(1,2) c] by (auto simp: c put_node_def)
  have b: "map_option modTime (nodes (fst (DecompressFile gz fc v inPath outPath)) (Clean outPath))
           = Some (ModTime gzReader)"
    using DecompressFile_success [OF assms(7)] assms(4,5,6) by (auto simp: put_node_def)
  from a b show ?thesis ..
qed

theorem C8_metadata_embedded_and_restored_witness:
  "os_Open example_world ''docs/a.txt''
     = Inr \<lparr>isDir = False, content = [104, 105, 10], modTime = 5, readable = True, writable = True\<rparr>
   \<and> snd (snd (CompressFile stored_codec (NewFileCompressor 6) example_world
                 ''docs/a.txt'' ''out/a.txt.gz'')) = None
   \<and> map_option content (nodes example_compressed (Clean ''out/a.txt.gz''))
       = Some (gz_encode stored_codec 6 \<lparr>Name = ''a.txt'', ModTime = 5\<rparr> [104, 105, 10])
   \<and> gz_NewReader stored_codec
         [31, 139, 5, 0, 0, 0, 0, 0, 0, 0, 5, 97, 46, 116, 120, 116, 104, 105, 10]
       = Some \<lparr>Name = ''a.txt'', ModTime = 5\<rparr>
   \<and> snd (snd (DecompressFile stored_codec (NewFileCompressor 6) example_compressed
                 ''out/a.txt.gz'' ''out/a.txt'')) = None
   \<and> map_option modTime (nodes (fst (DecompressFile stored_codec (NewFileCompressor 6)
                 example_compressed ''out/a.txt.gz'' ''out/a.txt'')) (Clean ''out/a.txt''))
       = Some 5"
proof -
  have d: "\<not> isDir \<lparr>isDir = False, content = [104, 105, 10], modTime = 5,
                     readable = True, writable = True\<rparr>"
    by simp
  have r: "gz_NewReader stored_codec (content \<lparr>isDir = False,
              content = [31, 139, 5, 0, 0, 0, 0, 0, 0, 0, 5, 97, 46, 116, 120, 116, 104, 105, 10],
              modTime = 1000, readable = True, writable = True\<rparr>)
            = Some \<lparr>Name = ''a.txt'', ModTime = 5\<rparr>"
    using example_header_a_gz by simp
  have z: "\<not> IsZero (ModTime \<lparr>Name = ''a.txt'', ModTime = 5\<rparr>)"
    by (simp add: IsZero_def)
  show ?thesis
    using C8_metadata_embedded_and_restored
            [OF example_open_a d example_compress_a example_open_a_gz r z example_decompress_a_gz]
          example_open_a example_compress_a example_header_a_gz example_decompress_a_gz
          example_facts_a
    by (simp add: example_compressed_def)
qed

subsection \<open>The ratio of an empty file\<close>

text \<open>
  Claim C3 as stated fails: for the empty file docs/empty CompressFile succeeds and its
  ratio is the result of the division of zero by zero, the value NaN. Nothing treats an
  original size of zero apart.
\<close>

theorem C3_empty_file_ratio_counterexample:
  "os_Open example_world ''docs/empty''
     = Inr \<lparr>isDir = False, content = [], modTime = 7, readable = True, writable = True\<rparr>
   \<and> snd (CompressFile stored_codec (NewFileCompressor 6) example_world ''docs/empty'' ''out/empty.gz'')
     = (Some \<lparr>OriginalSize = 0, CompressedSize = 0, CompressionRatio = NaN, TimeTaken = 0\<rparr>, None)
   \<and> fdiv (float64_of_int 0) (float64_of_int 0) = NaN"
  by code_simp

text \<open>
  Claim C3, amended. When the source is empty and CompressFile returns without error (as
  it does in the example), its ratio is not treated apart: it is the floating-point
  quotient of zero by zero, NaN, and no fault is raised. DecompressFile computes its
  ratio only after the gzip reader accepted the header of the input: with a reader that
  rejects the empty input, every successful call has a positive original size and a
  finite ratio.
\<close>

theorem C3_empty_file_ratio:
  "(os_Open w inputPath = Inr inputInfo \<and> content inputInfo = []
      \<and> snd (snd (CompressFile gz fc w inputPath outputPath)) = None
    \<longrightarrow> fst (snd (CompressFile gz fc w inputPath outputPath))
          = Some \<lparr>OriginalSize = 0, CompressedSize = 0, CompressionRatio = NaN, TimeTaken = 0\<rparr>)
   \<and> (gz_NewReader gz [] = None \<and> snd (snd (DecompressFile gz fc v inPath outPath)) = None
    \<longrightarrow> (\<exists>s r. fst (snd (DecompressFile gz fc v inPath outPath)) = Some s
                \<and> 0 < OriginalSize s \<and> CompressionRatio s = Finite r))"
proof (intro conjI impI)
  assume a: "os_Open w inputPath = Inr inputInfo \<and> content inputInfo = []
      \<and> snd (snd (CompressFile gz fc w inputPath outputPath)) = None"
  then have "snd (snd (CompressFile gz fc w inputPath outputPath)) = None" by simp
  from CompressFile_Some [OF this] a obtain w1 data where
    c: "os_Create w outputPath = Inr w1" and r: "read_all w1 inputPath = Inr data"
    and eq: "CompressFile gz fc w inputPath outputPath =
               (write_all w1 outputPath (gz_encode gz (compressionLevel fc)
                                  \<lparr>Name = Base inputPath, ModTime = modTime inputInfo\<rparr> data),
                Some \<lparr>OriginalSize = int (length (content inputInfo)),
                      CompressedSize = int (length data),
                      CompressionRatio = ratio (int (length data)) (int (length (content inputInfo))),
                      TimeTaken = 0\<rparr>,
                None)"
    by auto
  have "data = []"
    using read_after_create_any [OF _ c r, of inputInfo] a by simp
  then show "fst (snd (CompressFile gz fc w inputPath outputPath))
          = Some \<lparr>OriginalSize = 0, CompressedSize = 0, CompressionRatio = NaN, TimeTaken = 0\<rparr>"
    using a by (simp add: eq ratio_zero_zero)
next
  assume b: "gz_NewReader gz [] = None \<and> snd (snd (DecompressFile gz fc v inPath outPath)) = None"
  then have "snd (snd (DecompressFile gz fc v inPath outPath)) = None" by simp
  from DecompressFile_success [OF this] obtain n :: node and h :: gz_header and out n' where
    d: "gz_NewReader gz (content n) = Some h"
    "DecompressFile gz fc v inPath outPath =
               (put_node v outPath (n'\<lparr>content := out,
                    modTime := (if IsZero (ModTime h) then clock v else ModTime h)\<rparr>),
                Some \<lparr>OriginalSize = int (length (content n)), CompressedSize = int (length out),
                      CompressionRatio = ratio (int (length out)) (int (length (content n))),
                      TimeTaken = 0\<rparr>,
                None)"
    by blast
  have "content n \<noteq> []"
    using d(1) b by auto
  then have pos: "0 < int (length (content n))" by simp
  show "\<exists>s r. fst (snd (DecompressFile gz fc v inPath outPath)) = Some s
                \<and> 0 < OriginalSize s \<and> CompressionRatio s = Finite r"
    using pos by (simp add: d(2) ratio_Finite)
qed

theorem C3_empty_file_ratio_witness:
  "os_Open example_world ''docs/empty''
     = Inr \<lparr>isDir = False, content = [], modTime = 7, readable = True, writable = True\<rparr>
   \<and> snd (snd (CompressFile stored_codec (NewFileCompressor 6) example_world
                 ''docs/empty'' ''out/empty.gz'')) = None
   \<and> fst (snd (CompressFile stored_codec (NewFileCompressor 6) example_world
                 ''docs/empty'' ''out/empty.gz''))
       = Some \<lparr>OriginalSize = 0, CompressedSize = 0, CompressionRatio = NaN, TimeTaken = 0\<rparr>
   \<and> gz_NewReader stored_codec [] = None
   \<and> snd (snd (DecompressFile stored_codec (NewFileCompressor 6) example_compressed
                 ''out/a.txt.gz'' ''out/a.txt'')) = None
   \<and> (\<exists>s r. fst (snd (DecompressFile stored_codec (NewFileCompressor 6) example_compressed
                          ''out/a.txt.gz'' ''out/a.txt'')) = Some s
          \<and> 0 < OriginalSize s \<and> CompressionRatio s = Finite r)"
  using C3_empty_file_ratio [where w = example_world and inputPath = "''docs/empty''"
      and inputInfo = "\<lparr>isDir = False, content = [], modTime = 7, readable = True, writable = True\<rparr>"
      and outputPath = "''out/empty.gz''" and gz = stored_codec and fc = "NewFileCompressor 6"
      and v = example_compressed and inPath = "''out/a.txt.gz''" and outPath = "''out/a.txt''"]
    example_empty example_decompress_a_gz
  by simp

subsection \<open>Round trip of a file\<close>

text \<open>
  Claim C1 as stated fails on the modification time: docs/zero.txt has the zero time as
  its modification time, the container round-trips header and data, and the restored
  file has the content of the original but the time of its creation (1000), since
  DecompressFile restores the time only when the header's is not zero.
\<close>

theorem C1_round_trip_counterexample:
  "os_Open example_world ''docs/zero.txt''
     = Inr \<lparr>isDir = False, content = [122], modTime = 0, readable = True, writable = True\<rparr>
   \<and> snd (snd (CompressFile stored_codec (NewFileCompressor 6) example_world
                 ''docs/zero.txt'' ''out/zero.txt.gz'')) = None
   \<and> gz_NewReader stored_codec (gz_encode stored_codec 6 \<lparr>Name = ''zero.txt'', ModTime = 0\<rparr> [122])
       = Some \<lparr>Name = ''zero.txt'', ModTime = 0\<rparr>
   \<and> gz_ReadAll stored_codec (gz_encode stored_codec 6 \<lparr>Name = ''zero.txt'', ModTime = 0\<rparr> [122])
       = ([122], True)
   \<and> snd (snd (DecompressFile stored_codec (NewFileCompressor 6)
          (fst (CompressFile stored_codec (NewFileCompressor 6) example_world
                 ''docs/zero.txt'' ''out/zero.txt.gz''))
          ''out/zero.txt.gz'' ''out/zero.txt'')) = None
   \<and> nodes (fst (DecompressFile stored_codec (NewFileCompressor 6)
          (fst (CompressFile stored_codec (NewFileCompressor 6) example_world
                 ''docs/zero.txt'' ''out/zero.txt.gz''))
          ''out/zero.txt.gz'' ''out/zero.txt'')) ''out/zero.txt''
       = Some \<lparr>isDir = False, content = [122], modTime = 1000, readable = True, writable = True\<rparr>"
  by code_simp

text \<open>
  Claim C1, amended. Let F be a regular file whose modification time is not the zero
  time, compressed to a path other than its own, and let the result be decompressed to
  a path other than the compressed file's, both calls succeeding. If the codec
  round-trips the container written for F (the reader finds the modification time of
  the header and delivers the data without error), the restored file has the bytes and
  the modification time of F.
\<close>

theorem C1_round_trip:
  assumes "os_Open w inputPath = Inr F" and "\<not> isDir F"
    and "Clean inputPath \<noteq> Clean compressedPath"
    and "Clean compressedPath \<noteq> Clean restoredPath"
    and "snd (snd (CompressFile gz fc w inputPath compressedPath)) = None"
    and "map_option ModTime (gz_NewReader gz (gz_encode gz (compressionLevel fc)
            \<lparr>Name = Base inputPath, ModTime = modTime F\<rparr> (content F))) = Some (modTime F)"
    and "gz_ReadAll gz (gz_encode gz (compressionLevel fc)
            \<lparr>Name = Base inputPath, ModTime = modTime F\<rparr> (content F)) = (content F, True)"
    and "snd (snd (DecompressFile gz fc (fst (CompressFile gz fc w inputPath compressedPath))
            compressedPath restoredPath)) = None"
    and "\<not> IsZero (modTime F)"
  shows "\<exists>F'. nodes (fst (DecompressFile gz fc (fst (CompressFile gz fc w inputPath compressedPath))
                   compressedPath restoredPath)) (Clean restoredPath) = Some F'
              \<and> \<not> isDir F' \<and> content F' = content F \<and> modTime F' = modTime F"
proof -
  let ?c = "gz_encode gz (compressionLevel fc)
            \<lparr>Name = Base inputPath, ModTime = modTime F\<rparr> (content F)"
  obtain w1 s1 where c: "CompressFile gz fc w inputPath compressedPath = (w1, Some s1, None)"
    using assms(5) CompressFile_results [of gz fc w inputPath compressedPath]
    by (cases "CompressFile gz fc w inputPath compressedPath") auto
  obtain n1 where w1: "w1 = put_node w compressedPath (n1\<lparr>content := ?c, modTime := clock w\<rparr>)"
    using CompressFile_success(1) [OF assms(1,2) c] assms(3) by auto
  have s: "snd (snd (DecompressFile gz fc w1 compressedPath restoredPath)) = None"
    using assms(8) by (simp add: c)
  obtain n h out n' where d: "os_Open w1 compressedPath = Inr n" "\<not> isDir n"
    "gz_NewReader gz (content n) = Some h" "reader_ReadAll gz compressedPath restoredPath (content n) = (out, True)" "\<not> isDir n'"
    "DecompressFile gz fc w1 compressedPath restoredPath =
               (put_node w1 restoredPath (n'\<lparr>content := out,
                    modTime := (if IsZero (ModTime h) then clock w1 else ModTime h)\<rparr>),
                Some \<lparr>OriginalSize = int (length (content n)), CompressedSize = int (length out),
                      CompressionRatio = ratio (int (length out)) (int (length (content n))),
                      TimeTaken = 0\<rparr>,
                None)"
    using DecompressFile_success [OF s] by blast
  have "nodes w1 (Clean compressedPath) = Some n"
    using os_Open_file(1) [OF d(1,2)] .
  then have n: "content n = ?c"
    by (auto simp: w1 put_node_def)
  have h: "ModTime h = modTime F"
    using assms(6) d(3) by (simp add: n)
  have out: "out = content F"
    using assms(4,7) d(4) by (simp add: n reader_ReadAll_def)
  show ?thesis
    using assms(9) d(5) by (simp add: c d(6) h out put_node_def)
qed

theorem C1_round_trip_witness:
  "os_Open example_world ''docs/a.txt''
     = Inr \<lparr>isDir = False, content = [104, 105, 10], modTime = 5, readable = True, writable = True\<rparr>
   \<and> Clean ''docs/a.txt'' \<noteq> Clean ''out/a.txt.gz''
   \<and> Clean ''out/a.txt.gz'' \<noteq> Clean ''out/a.txt''
   \<and> snd (snd (CompressFile stored_codec (NewFileCompressor 6) example_world
                 ''docs/a.txt'' ''out/a.txt.gz'')) = None
   \<and> gz_NewReader stored_codec (gz_encode stored_codec 6 \<lparr>Name = ''a.txt'', ModTime = 5\<rparr> [104, 105, 10])
       = Some \<lparr>Name = ''a.txt'', ModTime = 5\<rparr>
   \<and> gz_ReadAll stored_codec (gz_encode stored_codec 6 \<lparr>Name = ''a.txt'', ModTime = 5\<rparr> [104, 105, 10])
       = ([104, 105, 10], True)
   \<and> snd (snd (DecompressFile stored_codec (NewFileCompressor 6) example_compressed
                 ''out/a.txt.gz'' ''out/a.txt'')) = None
   \<and> (\<exists>F'. nodes (fst (DecompressFile stored_codec (NewFileCompressor 6) example_compressed
                         ''out/a.txt.gz'' ''out/a.txt'')) (Clean ''out/a.txt'') = Some F'
            \<and> \<not> isDir F' \<and> content F' = [104, 105, 10] \<and> modTime F' = 5)"
  using C1_round_trip [where w = example_world and inputPath = "''docs/a.txt''"
      and F = "\<lparr>isDir = False, content = [104, 105, 10], modTime = 5, readable = True, writable = True\<rparr>"
      and compressedPath = "''out/a.txt.gz''" and restoredPath = "''out/a.txt''"
      and gz = stored_codec and fc = "NewFileCompressor 6"]
    example_open_a example_facts_a example_compress_a example_roundtrip_a
    example_decompress_a_gz
  by (simp add: example_compressed_def IsZero_def)

subsection \<open>Paths and directories\<close>

lemma clean_elems_Nil [simp]: "clean_elems [] = []"
  by (simp add: clean_elems_def)

lemma Clean_path_of_elems:
  "clean_elems p \<noteq> [] \<Longrightarrow> Clean p = path_of_elems (rooted p) (clean_elems p)"
  by (auto simp: Clean_def path_of_elems_def)

lemma node_at_lookup: "node_at w p = lookup_elems w (rooted p) (clean_elems p)"
  by (auto simp: node_at_def lookup_elems_def Clean_path_of_elems)



lemma os_MkdirAll_existing:
  assumes "node_at w p = Some d" and "isDir d" and "p \<noteq> []"
  shows "os_MkdirAll w p = Inr w"
proof (cases "rev (clean_elems p)")
  case Nil
  then show ?thesis using assms(3) by (simp add: os_MkdirAll_def)
next
  case (Cons e parent)
  then have "rev (e # parent) = clean_elems p"
    by (metis rev_rev_ident)
  then have "lookup_elems w (rooted p) (rev (e # parent)) = Some d"
    using assms(1) by (simp add: node_at_lookup)
  then show ?thesis
    using assms(2,3) Cons by (simp add: os_MkdirAll_def)
qed

lemma clean_step_nonempty:
  "\<forall>x\<in>set acc. x \<noteq> [] \<Longrightarrow> \<forall>x\<in>set (clean_step r acc c). x \<noteq> []"
  by (cases acc) auto

lemma foldl_clean_step_nonempty:
  "\<forall>x\<in>set acc. x \<noteq> [] \<Longrightarrow> \<forall>x\<in>set (foldl (clean_step r) acc cs). x \<noteq> []"
proof (induction cs arbitrary: acc)
  case Nil
  then show ?case by simp
next
  case (Cons c cs)
  show ?case
    using Cons.IH [OF clean_step_nonempty [OF Cons.prems]] by (simp del: clean_step.simps)
qed
lemma clean_elems_nonempty: "x \<in> set (clean_elems p) \<Longrightarrow> x \<noteq> []"
  using foldl_clean_step_nonempty [of "[]" "rooted p" "split_sep p"]
  by (auto simp: clean_elems_def simp del: clean_step.simps)

lemma join_sep_nonempty: "es \<noteq> [] \<Longrightarrow> hd es \<noteq> [] \<Longrightarrow> join_sep es \<noteq> []"
  by (cases es rule: join_sep.cases) auto

lemma Clean_not_empty: "Clean p \<noteq> []"
proof (cases "clean_elems p = []")
  case True
  then show ?thesis by (simp add: Clean_def)
next
  case False
  then have "hd (clean_elems p) \<noteq> []"
    using clean_elems_nonempty [of "hd (clean_elems p)" p] by simp
  with False show ?thesis
    by (simp add: Clean_def join_sep_nonempty)
qed

lemma Dir_not_empty: "Dir p \<noteq> []"
  by (simp add: Dir_def Clean_not_empty)



subsection \<open>Destinations of CompressDirectory\<close>




subsection \<open>Failures inside a directory operation\<close>

lemma compress_report_CompressFile:

  "snd (compress_report path outputPath (CompressFile gz fc w i p)) = None"
proof -
  obtain w1 s e where r: "CompressFile gz fc w i p = (w1, s, e)"
    by (cases "CompressFile gz fc w i p") auto
  show ?thesis
    using CompressFile_results [of gz fc w i p]
    by (cases s; cases e) (simp_all add: r)
qed

lemma decompress_report_DecompressFile:
  "snd (decompress_report path outputPath (DecompressFile gz fc w i p)) = None"
proof -
  obtain w1 s e where r: "DecompressFile gz fc w i p = (w1, s, e)"
    by (cases "DecompressFile gz fc w i p") auto
  show ?thesis
    using DecompressFile_results [of gz fc w i p]
    by (cases s; cases e) (simp_all add: r)
qed

lemma compress_walkFn_error:
  "snd (compress_walkFn gz fc inputDir outputDir path d err w) = Some e \<Longrightarrow> walk_level_error e"
  by (auto simp: compress_walkFn_def Let_def compress_report_CompressFile
      split: option.splits if_splits sum.splits)

lemma decompress_walkFn_error:
  "snd (decompress_walkFn gz fc inputDir outputDir path d err w) = Some e \<Longrightarrow> walk_level_error e"
  by (auto simp: decompress_walkFn_def Let_def decompress_report_DecompressFile
      split: option.splits if_splits sum.splits)

lemma walk_error:
  "(\<And>path d err w e. snd (fn path d err w) = Some e \<Longrightarrow> P e)
     \<Longrightarrow> snd (walk fn path t w) = Some e \<Longrightarrow> P e"
  "(\<And>path d err w e. snd (fn path d err w) = Some e \<Longrightarrow> P e)
     \<Longrightarrow> snd (walk_names fn path names w) = Some e \<Longrightarrow> P e"
proof (induction fn path t w and fn path names w rule: walk_walk_names.induct)
  case (1 fn path w)
  from "1.prems"(1) [of path False None w e] "1.prems"(2) show ?case by simp
next
  case (2 fn path e' w)
  from "2.prems"(1) [of path False "Some e'" w e] "2.prems"(2) show ?case by simp
next
  case (3 fn path e' w)
  from "3.prems"(1) [of path True "Some e'" w e] "3.prems"(2) show ?case by simp
next
  case (4 fn path names w)
  obtain w1 r where f: "fn path True None w = (w1, r)"
    by (cases "fn path True None w") auto
  show ?case
  proof (cases r)
    case None
    with f "4.prems"(2) have "snd (walk_names fn path names w1) = Some e" by simp
    with "4.IH" [OF _ _ "4.prems"(1)] f None show ?thesis by simp
  next
    case (Some err)
    with f "4.prems"(2) have "snd (fn path True None w) = Some e" by simp
    then show ?thesis by (rule "4.prems"(1))
  qed
next
  case (5 fn path w)
  then show ?case by simp
next
  case (6 fn path name t rest w)
  obtain w1 r where f: "walk fn (Join path name) t w = (w1, r)"
    by (cases "walk fn (Join path name) t w") auto
  show ?case
  proof (cases r)
    case None
    with f "6.prems"(2) have "snd (walk_names fn path rest w1) = Some e" by simp
    with "6.IH"(2) [OF _ _ "6.prems"(1)] f None show ?thesis by simp
  next
    case (Some err)
    with f "6.prems"(2) have "snd (walk fn (Join path name) t w) = Some e" by simp
    with "6.IH"(1) [OF "6.prems"(1)] show ?thesis by simp
  qed
qed

text \<open>
  Claim C4 as stated fails. The walk of CompressDirectory writes out/a.gz for the file a,
  then finds the file a.gz/b, whose destination out/a.gz/b.gz needs the directory
  out/a.gz: MkdirAll fails on the file of that name, the walk function returns its error,
  the walk ends there and CompressDirectory returns the error. The file c is never
  compressed.
\<close>

theorem C4_mkdir_failure_stops_the_walk_counterexample:
  "snd (CompressDirectory stored_codec (NewFileCompressor 6) clash_world ''in'' ''out'' clash_tree)
          = Some (PathError ENOTDIR)
   \<and> nodes (fst (CompressDirectory stored_codec (NewFileCompressor 6) clash_world ''in'' ''out'' clash_tree))
        ''out/c.gz'' = None
   \<and> stdout (fst (CompressDirectory stored_codec (NewFileCompressor 6) clash_world ''in'' ''out'' clash_tree))
       = [Compressed ''in/a'' ''out/a.gz'' (Finite 100)]"
  by code_simp

text \<open>
  Claim C4, amended. For a regular file of the walk whose relative path is found and
  whose destination directory MkdirAll makes, the walk function of either directory
  operation returns no error whatever the file operation returned; a failure of the
  file operation is printed; and the walk goes on with the next name of the directory.
  The error a directory operation returns is never one of a file operation: it comes
  from the walk, from MkdirAll (of the output root or of a destination's parent) or from
  the relative path.
\<close>

theorem C4_file_failures_do_not_stop_the_walk:
  assumes "Rel inputDir path = Some relPath"
    and "os_MkdirAll w (Dir (compress_outputPath outputDir relPath)) = Inr wc"
    and "os_MkdirAll w (Dir (decompress_outputPath outputDir relPath)) = Inr wd"
  shows "snd (compress_walkFn gz fc inputDir outputDir path False None w) = None
    \<and> snd (decompress_walkFn gz fc inputDir outputDir path False None w) = None
    \<and> (snd (snd (CompressFile gz fc wc path (compress_outputPath outputDir relPath))) = Some e
         \<longrightarrow> stdout (fst (compress_walkFn gz fc inputDir outputDir path False None w))
             = stdout (fst (CompressFile gz fc wc path (compress_outputPath outputDir relPath)))
                 @ [ErrorCompressing path e])
    \<and> (snd (snd (DecompressFile gz fc wd path (decompress_outputPath outputDir relPath))) = Some e
         \<longrightarrow> stdout (fst (decompress_walkFn gz fc inputDir outputDir path False None w))
             = stdout (fst (DecompressFile gz fc wd path (decompress_outputPath outputDir relPath)))
                 @ [ErrorDecompressing path e])
    \<and> (path = Join dir name
         \<longrightarrow> walk_names (compress_walkFn gz fc inputDir outputDir) dir ((name, WFile) # rest) w
             = walk_names (compress_walkFn gz fc inputDir outputDir) dir rest
                 (fst (compress_walkFn gz fc inputDir outputDir path False None w))
           \<and> walk_names (decompress_walkFn gz fc inputDir outputDir) dir ((name, WFile) # rest) w
             = walk_names (decompress_walkFn gz fc inputDir outputDir) dir rest
                 (fst (decompress_walkFn gz fc inputDir outputDir path False None w)))
    \<and> (snd (CompressDirectory gz fc w0 inputDir outputDir tree) = Some err
         \<longrightarrow> walk_level_error err)
    \<and> (snd (DecompressDirectory gz fc w0 inputDir outputDir tree) = Some err
         \<longrightarrow> walk_level_error err)"
proof -
  let ?c = "compress_walkFn gz fc inputDir outputDir"
  let ?d = "decompress_walkFn gz fc inputDir outputDir"
  let ?cf = "CompressFile gz fc wc path (compress_outputPath outputDir relPath)"
  let ?df = "DecompressFile gz fc wd path (decompress_outputPath outputDir relPath)"
  have c: "?c path False None w = compress_report path (compress_outputPath outputDir relPath) ?cf"
    using assms(1,2) by (simp add: compress_walkFn_def Let_def)
  have d: "?d path False None w = decompress_report path (decompress_outputPath outputDir relPath) ?df"
    using assms(1,3) by (simp add: decompress_walkFn_def Let_def)
  have 1: "snd (?c path False None w) = None"
    by (simp add: c compress_report_CompressFile)
  have 2: "snd (?d path False None w) = None"
    by (simp add: d decompress_report_DecompressFile)
  have 3: "snd (snd ?cf) = Some e
         \<longrightarrow> stdout (fst (?c path False None w)) = stdout (fst ?cf) @ [ErrorCompressing path e]"
    by (cases ?cf) (auto simp: c print_def)
  have 4: "snd (snd ?df) = Some e
         \<longrightarrow> stdout (fst (?d path False None w)) = stdout (fst ?df) @ [ErrorDecompressing path e]"
    by (cases ?df) (auto simp: d print_def)
  have 5: "path = Join dir name
         \<longrightarrow> walk_names ?c dir ((name, WFile) # rest) w
             = walk_names ?c dir rest (fst (?c path False None w))
           \<and> walk_names ?d dir ((name, WFile) # rest) w
             = walk_names ?d dir rest (fst (?d path False None w))"
    using 1 2 by (auto split: prod.splits option.splits)
  have 6: "snd (CompressDirectory gz fc w0 inputDir outputDir tree) = Some err
         \<longrightarrow> walk_level_error err"
    using walk_error(1) [of ?c walk_level_error inputDir tree _ err]
    by (auto simp: CompressDirectory_def dest: compress_walkFn_error split: sum.splits)
  have 7: "snd (DecompressDirectory gz fc w0 inputDir outputDir tree) = Some err
         \<longrightarrow> walk_level_error err"
    using walk_error(1) [of ?d walk_level_error inputDir tree _ err]
    by (auto simp: DecompressDirectory_def dest: decompress_walkFn_error split: sum.splits)
  from 1 2 3 4 5 6 7 show ?thesis by blast
qed

lemma locked_facts:
  "Rel ''in'' ''in/a'' = Some ''a''"
  "node_at locked_world (Dir (compress_outputPath ''out'' ''a'')) = Some (new_dir 1)"
  "node_at locked_world (Dir (decompress_outputPath ''out'' ''a'')) = Some (new_dir 1)"
  "isDir (new_dir 1)"
  "snd (snd (CompressFile stored_codec (NewFileCompressor 6) locked_world ''in/a''
               (compress_outputPath ''out'' ''a''))) = Some (FailedToOpenInputFile EACCES)"
  by code_simp+

lemma locked_run:
  "snd (CompressDirectory stored_codec (NewFileCompressor 6) locked_world ''in'' ''out'' locked_tree)
     = None"
  "stdout (fst (CompressDirectory stored_codec (NewFileCompressor 6) locked_world ''in'' ''out''
                  locked_tree))
     = [ErrorCompressing ''in/a'' (FailedToOpenInputFile EACCES),
        Compressed ''in/b'' ''out/b.gz'' (Finite 100)]"
  "map_option isDir (nodes (fst (CompressDirectory stored_codec (NewFileCompressor 6) locked_world
                  ''in'' ''out'' locked_tree)) ''out/b.gz'') = Some False"
  by code_simp+

theorem C4_file_failures_do_not_stop_the_walk_witness:
  "Rel ''in'' ''in/a'' = Some ''a''
   \<and> os_MkdirAll locked_world (Dir (compress_outputPath ''out'' ''a'')) = Inr locked_world
   \<and> os_MkdirAll locked_world (Dir (decompress_outputPath ''out'' ''a'')) = Inr locked_world
   \<and> snd (snd (CompressFile stored_codec (NewFileCompressor 6) locked_world ''in/a''
               (compress_outputPath ''out'' ''a''))) = Some (FailedToOpenInputFile EACCES)
   \<and> snd (compress_walkFn stored_codec (NewFileCompressor 6) ''in'' ''out'' ''in/a'' False None
            locked_world) = None
   \<and> stdout (fst (compress_walkFn stored_codec (NewFileCompressor 6) ''in'' ''out'' ''in/a'' False
            None locked_world))
       = stdout (fst (CompressFile stored_codec (NewFileCompressor 6) locked_world ''in/a''
                        (compress_outputPath ''out'' ''a'')))
           @ [ErrorCompressing ''in/a'' (FailedToOpenInputFile EACCES)]
   \<and> snd (CompressDirectory stored_codec (NewFileCompressor 6) locked_world ''in'' ''out''
            locked_tree) = None
   \<and> map_option isDir (nodes (fst (CompressDirectory stored_codec (NewFileCompressor 6)
            locked_world ''in'' ''out'' locked_tree)) ''out/b.gz'') = Some False"
proof -
  have mc: "os_MkdirAll locked_world (Dir (compress_outputPath ''out'' ''a'')) = Inr locked_world"
    using locked_facts(2,4) Dir_not_empty by (rule os_MkdirAll_existing)
  have md: "os_MkdirAll locked_world (Dir (decompress_outputPath ''out'' ''a'')) = Inr locked_world"
    using locked_facts(3,4) Dir_not_empty by (rule os_MkdirAll_existing)
  show ?thesis
    using C4_file_failures_do_not_stop_the_walk [OF locked_facts(1) mc md,
        where gz = stored_codec and fc = "NewFileCompressor 6"
          and e = "FailedToOpenInputFile EACCES"]
      locked_facts(1,5) mc md locked_run(1,3)
    by simp
qed

end
